theory Spec2Isabelle
  imports Main "HOL-Library.Sublist"
begin

section \<open>Python values, errors and verdicts\<close>

text \<open>
  The checks of \<^verbatim>\<open>policies/checkov/custom_policies.py\<close> receive one parsed resource
  declaration \<^verbatim>\<open>conf\<close>: a Python dict from attribute names to values. A value is
  \<^verbatim>\<open>None\<close>, a bool, an int, a str, a list, or a dict with string keys. A dict is an
  association list read with \<open>map_of\<close> (the first binding of a key counts). Floats are
  not modelled. A str is a list of 8-bit characters; \<^verbatim>\<open>lower()\<close> maps the letters
  \<^verbatim>\<open>A\<close>..\<^verbatim>\<open>Z\<close> only, which agrees with Python on every comparison made
  below, since the string literals compared against contain no \<^verbatim>\<open>k\<close>, the one ASCII
  letter that a non-ASCII character lower-cases to.
\<close>

datatype pyval =
    VNone
  | VBool bool
  | VInt int
  | VStr string
  | VList "pyval list"
  | VDict "(string \<times> pyval) list"

type_synonym pydict = "(string \<times> pyval) list"

text \<open>The exceptions the checks can raise: a raise is the value \<open>Inl e\<close>.\<close>

datatype py_error = TypeError | AttributeError | IndexError | KeyError

text \<open>The fallback class \<^verbatim>\<open>CheckResult\<close> at the end of the module.\<close>

datatype CheckResult = PASSED | FAILED | SKIPPED | UNKNOWN

section \<open>The Python operations the checks use\<close>

text \<open>\<^verbatim>\<open>bool(v)\<close>: the truth value tested by \<^verbatim>\<open>if v\<close>, \<^verbatim>\<open>not v\<close>, \<^verbatim>\<open>a and b\<close>.\<close>

fun truthy :: "pyval \<Rightarrow> bool" where
  "truthy VNone = False"
| "truthy (VBool b) = b"
| "truthy (VInt i) = (i \<noteq> 0)"
| "truthy (VStr s) = (s \<noteq> [])"
| "truthy (VList xs) = (xs \<noteq> [])"
| "truthy (VDict d) = (d \<noteq> [])"

text \<open>\<^verbatim>\<open>isinstance(v, list)\<close>.\<close>

fun isinstance_list :: "pyval \<Rightarrow> bool" where
  "isinstance_list (VList xs) = True"
| "isinstance_list v = False"

text \<open>\<^verbatim>\<open>d.get(k, default)\<close> on a dict.\<close>

definition dict_get :: "pydict \<Rightarrow> string \<Rightarrow> pyval \<Rightarrow> pyval" where
  "dict_get d k dflt = (case map_of d k of None \<Rightarrow> dflt | Some v \<Rightarrow> v)"

text \<open>\<^verbatim>\<open>v.get(k, default)\<close> on any value: only a dict has the method.\<close>

fun method_get :: "pyval \<Rightarrow> string \<Rightarrow> pyval \<Rightarrow> py_error + pyval" where
  "method_get (VDict d) k dflt = Inr (dict_get d k dflt)"
| "method_get v k dflt = Inl AttributeError"

text \<open>
  \<^verbatim>\<open>v[0]\<close>: the first element of a list, the first character of a str
  (\<^verbatim>\<open>IndexError\<close> when empty), \<^verbatim>\<open>KeyError\<close> on a dict (its keys are strings),
  \<^verbatim>\<open>TypeError\<close> on \<^verbatim>\<open>None\<close>, a bool or an int.
\<close>

fun getitem0 :: "pyval \<Rightarrow> py_error + pyval" where
  "getitem0 (VList []) = Inl IndexError"
| "getitem0 (VList (x # xs)) = Inr x"
| "getitem0 (VStr []) = Inl IndexError"
| "getitem0 (VStr (c # cs)) = Inr (VStr [c])"
| "getitem0 (VDict d) = Inl KeyError"
| "getitem0 v = Inl TypeError"

text \<open>The lower-case form of one character: a table for the 26 capital letters.\<close>

definition lower_char :: "char \<Rightarrow> char" where
  "lower_char c =
     (case map_of (zip ''ABCDEFGHIJKLMNOPQRSTUVWXYZ'' ''abcdefghijklmnopqrstuvwxyz'') c of
        None \<Rightarrow> c
      | Some l \<Rightarrow> l)"

definition str_lower :: "string \<Rightarrow> string" where
  "str_lower s = map lower_char s"

text \<open>\<^verbatim>\<open>v.lower()\<close>: only a str has the method.\<close>

fun method_lower :: "pyval \<Rightarrow> py_error + string" where
  "method_lower (VStr s) = Inr (str_lower s)"
| "method_lower v = Inl AttributeError"

text \<open>\<^verbatim>\<open>v.startswith(p)\<close>: only a str has the method.\<close>

fun method_startswith :: "pyval \<Rightarrow> string \<Rightarrow> py_error + bool" where
  "method_startswith (VStr s) p = Inr (prefix p s)"
| "method_startswith v p = Inl AttributeError"

text \<open>\<^verbatim>\<open>s.split(sep)\<close> for a one-character separator: at least one part.\<close>

fun str_split :: "char \<Rightarrow> string \<Rightarrow> string list" where
  "str_split sep [] = [[]]"
| "str_split sep (c # cs) =
     (if c = sep then [] # str_split sep cs
      else (case str_split sep cs of
              [] \<Rightarrow> [[c]]
            | p # ps \<Rightarrow> (c # p) # ps))"

fun method_split :: "pyval \<Rightarrow> char \<Rightarrow> py_error + string list" where
  "method_split (VStr s) sep = Inr (str_split sep s)"
| "method_split v sep = Inl AttributeError"

text \<open>\<^verbatim>\<open>p in s\<close> for two strs: \<open>p\<close> occurs in \<open>s\<close> as a contiguous substring.\<close>

fun str_contains :: "string \<Rightarrow> string \<Rightarrow> bool" where
  "str_contains p [] = (p = [])"
| "str_contains p (c # cs) = (prefix p (c # cs) \<or> str_contains p cs)"

text \<open>
  \<^verbatim>\<open>k in v\<close> for a str \<open>k\<close>: substring of a str, element of a list (a str equals only
  an equal str), key of a dict; \<^verbatim>\<open>TypeError\<close> on \<^verbatim>\<open>None\<close>, a bool or an int.
\<close>

fun py_in :: "string \<Rightarrow> pyval \<Rightarrow> py_error + bool" where
  "py_in k (VStr s) = Inr (str_contains k s)"
| "py_in k (VList xs) = Inr (VStr k \<in> set xs)"
| "py_in k (VDict d) = Inr (k \<in> fst ` set d)"
| "py_in k v = Inl TypeError"

text \<open>
  \<^verbatim>\<open>v >= n\<close> for an int \<open>n\<close>: an int compares, a bool counts as 0 or 1, every other
  value raises \<^verbatim>\<open>TypeError\<close>.
\<close>

fun py_ge :: "pyval \<Rightarrow> int \<Rightarrow> py_error + bool" where
  "py_ge (VInt i) n = Inr (n \<le> i)"
| "py_ge (VBool b) n = Inr (n \<le> (if b then 1 else 0))"
| "py_ge v n = Inl TypeError"

text \<open>
  \<^verbatim>\<open>any(f(x) for x in xs)\<close>: stops at the first true element; a raise inside the
  generator propagates.
\<close>

fun py_any :: "('a \<Rightarrow> py_error + bool) \<Rightarrow> 'a list \<Rightarrow> py_error + bool" where
  "py_any f [] = Inr False"
| "py_any f (x # xs) =
     (case f x of
        Inl e \<Rightarrow> Inl e
      | Inr b \<Rightarrow> if b then Inr True else py_any f xs)"

section \<open>The seven checks\<close>

subsection \<open>CKV\_EIGHTPOINT\_001: S3 bucket naming\<close>

definition valid_prefixes :: "string list" where
  "valid_prefixes = [''ios-'', ''android-'', ''shared-'', ''mob-'']"

definition valid_environments_s3 :: "string list" where
  "valid_environments_s3 = [''-dev-'', ''-prod-'', ''-global-'']"

definition EightpointS3BucketNaming_scan_resource_conf :: "pydict \<Rightarrow> py_error + CheckResult" where
  "EightpointS3BucketNaming_scan_resource_conf conf =
     (let bucket_name = dict_get conf ''bucket'' VNone in
      case (if truthy bucket_name \<and> isinstance_list bucket_name
            then getitem0 bucket_name else Inr bucket_name) of
        Inl e \<Rightarrow> Inl e
      | Inr bucket_name \<Rightarrow>
          if truthy bucket_name then
            (case py_any (method_startswith bucket_name) valid_prefixes of
               Inl e \<Rightarrow> Inl e
             | Inr has_valid_prefix \<Rightarrow>
                 (case py_any (\<lambda>env. py_in env bucket_name) valid_environments_s3 of
                    Inl e \<Rightarrow> Inl e
                  | Inr has_valid_env \<Rightarrow>
                      Inr (if has_valid_prefix \<and> has_valid_env then PASSED else FAILED)))
          else Inr FAILED)"

subsection \<open>CKV\_EIGHTPOINT\_002: resource tagging\<close>

definition required_tags :: "string list" where
  "required_tags = [''Team'', ''Environment'', ''Project'', ''ManagedBy'']"

definition valid_teams :: "string list" where
  "valid_teams = [''ios'', ''android'', ''shared'']"

definition valid_environments_tags :: "string list" where
  "valid_environments_tags = [''dev'', ''prod'', ''global'', ''test'']"

text \<open>
  The loop \<^verbatim>\<open>for required_tag in required_tags: if required_tag not in tags_dict:
  return FAILED\<close>: \<open>Inr True\<close> when the loop returns \<^verbatim>\<open>FAILED\<close>, \<open>Inr False\<close> when it
  runs to its end.
\<close>

fun required_tag_missing :: "string list \<Rightarrow> pyval \<Rightarrow> py_error + bool" where
  "required_tag_missing [] tags_dict = Inr False"
| "required_tag_missing (required_tag # rest) tags_dict =
     (case py_in required_tag tags_dict of
        Inl e \<Rightarrow> Inl e
      | Inr present \<Rightarrow> if \<not> present then Inr True else required_tag_missing rest tags_dict)"

text \<open>\<^verbatim>\<open>tags_dict.get(key, '').lower()\<close>.\<close>

definition tag_lower :: "pyval \<Rightarrow> string \<Rightarrow> py_error + string" where
  "tag_lower tags_dict key =
     (case method_get tags_dict key (VStr '''') of
        Inl e \<Rightarrow> Inl e
      | Inr v \<Rightarrow> method_lower v)"

definition EightpointResourceTagging_scan_resource_conf :: "pydict \<Rightarrow> py_error + CheckResult" where
  "EightpointResourceTagging_scan_resource_conf conf =
     (let tags = dict_get conf ''tags'' VNone in
      if \<not> truthy tags \<or> \<not> isinstance_list tags then Inr FAILED
      else
        case (if truthy tags then getitem0 tags else Inr (VDict [])) of
          Inl e \<Rightarrow> Inl e
        | Inr tags_dict \<Rightarrow>
            (case required_tag_missing required_tags tags_dict of
               Inl e \<Rightarrow> Inl e
             | Inr missing \<Rightarrow>
                 if missing then Inr FAILED
                 else
                   (case tag_lower tags_dict ''Team'' of
                      Inl e \<Rightarrow> Inl e
                    | Inr team_value \<Rightarrow>
                        if team_value \<notin> set valid_teams then Inr FAILED
                        else
                          (case tag_lower tags_dict ''Environment'' of
                             Inl e \<Rightarrow> Inl e
                           | Inr env_value \<Rightarrow>
                               if env_value \<notin> set valid_environments_tags then Inr FAILED
                               else
                                 (case tag_lower tags_dict ''ManagedBy'' of
                                    Inl e \<Rightarrow> Inl e
                                  | Inr managed_by \<Rightarrow>
                                      if managed_by \<noteq> ''terraform'' then Inr FAILED
                                      else Inr PASSED)))))"

subsection \<open>CKV\_EIGHTPOINT\_003 and 004: security group and IAM role naming\<close>

definition name_teams :: "string list" where
  "name_teams = [''ios'', ''android'', ''shared'']"

definition name_environments :: "string list" where
  "name_environments = [''dev'', ''prod'', ''global'']"

definition EightpointSecurityGroupNaming_scan_resource_conf :: "pydict \<Rightarrow> py_error + CheckResult" where
  "EightpointSecurityGroupNaming_scan_resource_conf conf =
     (let sg_name = dict_get conf ''name'' VNone in
      case (if truthy sg_name \<and> isinstance_list sg_name
            then getitem0 sg_name else Inr sg_name) of
        Inl e \<Rightarrow> Inl e
      | Inr sg_name \<Rightarrow>
          if truthy sg_name then
            (case method_split sg_name CHR ''-'' of
               Inl e \<Rightarrow> Inl e
             | Inr parts \<Rightarrow>
                 if length parts < 4 then Inr FAILED
                 else if parts ! 0 \<notin> set name_teams then Inr FAILED
                 else if parts ! 1 \<notin> set name_environments then Inr FAILED
                 else Inr PASSED)
          else Inr FAILED)"

definition EightpointIAMRoleNaming_scan_resource_conf :: "pydict \<Rightarrow> py_error + CheckResult" where
  "EightpointIAMRoleNaming_scan_resource_conf conf =
     (let role_name = dict_get conf ''name'' VNone in
      case (if truthy role_name \<and> isinstance_list role_name
            then getitem0 role_name else Inr role_name) of
        Inl e \<Rightarrow> Inl e
      | Inr role_name \<Rightarrow>
          if truthy role_name then
            (case method_split role_name CHR ''-'' of
               Inl e \<Rightarrow> Inl e
             | Inr parts \<Rightarrow>
                 if length parts < 4 then Inr FAILED
                 else if str_lower (parts ! 0) \<notin> set name_teams then Inr FAILED
                 else if str_lower (parts ! 1) \<notin> set name_environments then Inr FAILED
                 else Inr PASSED)
          else Inr FAILED)"

subsection \<open>CKV\_EIGHTPOINT\_005: KMS key rotation\<close>

text \<open>
  \<^verbatim>\<open>tags = conf.get('tags', [{}]); tags_dict = tags[0] if tags else {}\<close>, shared by
  checks 005 and 006.
\<close>

definition first_tags :: "pydict \<Rightarrow> py_error + pyval" where
  "first_tags conf =
     (let tags = dict_get conf ''tags'' (VList [VDict []]) in
      if truthy tags then getitem0 tags else Inr (VDict []))"

definition EightpointKMSKeyRotation_scan_resource_conf :: "pydict \<Rightarrow> py_error + CheckResult" where
  "EightpointKMSKeyRotation_scan_resource_conf conf =
     (case first_tags conf of
        Inl e \<Rightarrow> Inl e
      | Inr tags_dict \<Rightarrow>
          (case (if truthy (dict_get conf ''description'' VNone)
                 then getitem0 (dict_get conf ''description'' (VList [VStr '''']))
                 else Inr (VStr '''')) of
             Inl e \<Rightarrow> Inl e
           | Inr description \<Rightarrow>
               (case (case tag_lower tags_dict ''Environment'' of
                        Inl e \<Rightarrow> Inl e
                      | Inr env \<Rightarrow>
                          if env = ''prod'' then Inr True
                          else (case method_lower description of
                                  Inl e \<Rightarrow> Inl e
                                | Inr d \<Rightarrow>
                                    Inr (str_contains ''prod'' d \<or> str_contains ''production'' d))) of
                  Inl e \<Rightarrow> Inl e
                | Inr is_prod \<Rightarrow>
                    if is_prod then
                      (let rotation_enabled = dict_get conf ''enable_key_rotation'' VNone in
                       if truthy rotation_enabled \<and> isinstance_list rotation_enabled then
                         (case getitem0 rotation_enabled of
                            Inl e \<Rightarrow> Inl e
                          | Inr r \<Rightarrow> Inr (if truthy r then PASSED else FAILED))
                       else Inr FAILED)
                    else Inr PASSED)))"

subsection \<open>CKV\_EIGHTPOINT\_006: RDS backup retention\<close>

definition EightpointRDSBackupRetention_scan_resource_conf :: "pydict \<Rightarrow> py_error + CheckResult" where
  "EightpointRDSBackupRetention_scan_resource_conf conf =
     (case first_tags conf of
        Inl e \<Rightarrow> Inl e
      | Inr tags_dict \<Rightarrow>
          (case tag_lower tags_dict ''Environment'' of
             Inl e \<Rightarrow> Inl e
           | Inr environment \<Rightarrow>
               (let backup_retention = dict_get conf ''backup_retention_period'' VNone in
                if truthy backup_retention \<and> isinstance_list backup_retention then
                  (case getitem0 backup_retention of
                     Inl e \<Rightarrow> Inl e
                   | Inr retention_days \<Rightarrow>
                       if environment = ''prod'' \<or> environment = ''production'' then
                         (case py_ge retention_days 7 of
                            Inl e \<Rightarrow> Inl e
                          | Inr ok \<Rightarrow> Inr (if ok then PASSED else FAILED))
                       else
                         (case py_ge retention_days 1 of
                            Inl e \<Rightarrow> Inl e
                          | Inr ok \<Rightarrow> Inr (if ok then PASSED else FAILED)))
                else Inr FAILED)))"

subsection \<open>CKV\_EIGHTPOINT\_007: EKS endpoint access\<close>

text \<open>\<^verbatim>\<open>vpc_config.get(key, default)[0]\<close>.\<close>

definition get_first :: "pyval \<Rightarrow> string \<Rightarrow> pyval \<Rightarrow> py_error + pyval" where
  "get_first d key dflt =
     (case method_get d key dflt of
        Inl e \<Rightarrow> Inl e
      | Inr v \<Rightarrow> getitem0 v)"

definition EightpointEKSEndpointAccess_scan_resource_conf :: "pydict \<Rightarrow> py_error + CheckResult" where
  "EightpointEKSEndpointAccess_scan_resource_conf conf =
     (let vpc_config = dict_get conf ''vpc_config'' VNone in
      if \<not> truthy vpc_config \<or> \<not> isinstance_list vpc_config then Inr FAILED
      else
        case getitem0 vpc_config of
          Inl e \<Rightarrow> Inl e
        | Inr vpc_config \<Rightarrow>
            (case get_first vpc_config ''endpoint_private_access'' (VList [VBool False]) of
               Inl e \<Rightarrow> Inl e
             | Inr private_access \<Rightarrow>
                 if \<not> truthy private_access then Inr FAILED
                 else
                   (case get_first vpc_config ''endpoint_public_access'' (VList [VBool True]) of
                      Inl e \<Rightarrow> Inl e
                    | Inr public_access \<Rightarrow>
                        if truthy public_access then
                          (case method_get vpc_config ''public_access_cidrs'' (VList []) of
                             Inl e \<Rightarrow> Inl e
                           | Inr public_cidrs \<Rightarrow>
                               if \<not> truthy public_cidrs then Inr FAILED
                               else
                                 (case py_in ''0.0.0.0/0'' public_cidrs of
                                    Inl e \<Rightarrow> Inl e
                                  | Inr open_cidr \<Rightarrow>
                                      if open_cidr then Inr FAILED else Inr PASSED))
                        else Inr PASSED)))"

section \<open>Vocabulary of the specification\<close>

text \<open>
  The accessor the specification describes, \<^verbatim>\<open>get(record, key)\<close>: it unwraps one level
  of sequence wrapping and is absent when the key is missing or the sequence is empty.
  It is the reading of "the unwrapped value" in the statements below; the checks
  themselves do their own unwrapping.
\<close>

definition spec_get :: "pydict \<Rightarrow> string \<Rightarrow> pyval option" where
  "spec_get record key =
     (case map_of record key of
        None \<Rightarrow> None
      | Some (VList []) \<Rightarrow> None
      | Some (VList (x # xs)) \<Rightarrow> Some x
      | Some v \<Rightarrow> Some v)"

text \<open>
  Rule 001 in the specification's words: the name starts with one of the four team
  prefixes and contains one of the three environment tokens anywhere.
\<close>

definition spec_bucket_rule :: "string \<Rightarrow> bool" where
  "spec_bucket_rule name \<longleftrightarrow>
     (prefix ''ios-'' name \<or> prefix ''android-'' name \<or> prefix ''shared-'' name
        \<or> prefix ''mob-'' name)
     \<and> (sublist ''-dev-'' name \<or> sublist ''-prod-'' name \<or> sublist ''-global-'' name)"

text \<open>
  The structural rule of 003 and 004 in the specification's words: split on \<^verbatim>\<open>-\<close>, at
  least four parts, part 0 a team and part 1 an environment after the normalisation
  \<open>norm\<close> (the identity for 003, lower-casing for 004); later parts are not looked at.
\<close>

definition spec_name_rule :: "(string \<Rightarrow> string) \<Rightarrow> string \<Rightarrow> bool" where
  "spec_name_rule norm name \<longleftrightarrow>
     (let parts = str_split CHR ''-'' name in
      4 \<le> length parts
      \<and> norm (parts ! 0) \<in> {''ios'', ''android'', ''shared''}
      \<and> norm (parts ! 1) \<in> {''dev'', ''prod'', ''global''})"

text \<open>An example of a tag mapping that satisfies rule 002.\<close>

abbreviation good_tags :: pydict where
  "good_tags \<equiv> [(''Team'', VStr ''IOS''), (''Environment'', VStr ''dev''),
                 (''Project'', VStr ''''), (''ManagedBy'', VStr ''Terraform'')]"

text \<open>
  The sequence-wrapped shapes that checks 005, 006 and 007 read. \<open>wrapped_tags\<close> is the
  tag mapping of a record whose \<^verbatim>\<open>tags\<close> is missing or falsy (the empty mapping) or a
  sequence whose first element is a mapping; \<open>env_tag\<close> is the \<^verbatim>\<open>Environment\<close> value of
  a tag mapping, the empty string when the tag is missing; \<open>wrapped_description\<close> is the
  description of a record whose \<^verbatim>\<open>description\<close> is missing or falsy (the empty
  string) or a sequence whose first element is a string. Each is \<open>None\<close> on every other
  shape.
\<close>

definition wrapped_tags :: "pydict \<Rightarrow> pydict option" where
  "wrapped_tags conf =
     (case map_of conf ''tags'' of
        None \<Rightarrow> Some []
      | Some v \<Rightarrow>
          if \<not> truthy v then Some []
          else (case v of VList (VDict d # r) \<Rightarrow> Some d | _ \<Rightarrow> None))"

definition env_tag :: "pydict \<Rightarrow> string option" where
  "env_tag d =
     (case map_of d ''Environment'' of
        None \<Rightarrow> Some ''''
      | Some (VStr s) \<Rightarrow> Some s
      | Some _ \<Rightarrow> None)"

definition wrapped_description :: "pydict \<Rightarrow> string option" where
  "wrapped_description conf =
     (case map_of conf ''description'' of
        None \<Rightarrow> Some ''''
      | Some v \<Rightarrow>
          if \<not> truthy v then Some ''''
          else (case v of VList (VStr s # r) \<Rightarrow> Some s | _ \<Rightarrow> None))"

text \<open>
  A boolean attribute of the \<^verbatim>\<open>vpc_config\<close> block in wrapped form: the default when
  the key is missing, the truth value of the first element of a non-empty sequence,
  \<open>None\<close> on every other shape. \<open>cidr_list\<close> is the list held by
  \<^verbatim>\<open>public_access_cidrs\<close>, empty when the key is missing.
\<close>

definition wrapped_flag :: "pydict \<Rightarrow> string \<Rightarrow> bool \<Rightarrow> bool option" where
  "wrapped_flag vc key dflt =
     (case map_of vc key of
        None \<Rightarrow> Some dflt
      | Some (VList (x # xs)) \<Rightarrow> Some (truthy x)
      | Some _ \<Rightarrow> None)"

definition cidr_list :: "pydict \<Rightarrow> pyval list option" where
  "cidr_list vc =
     (case map_of vc ''public_access_cidrs'' of
        None \<Rightarrow> Some []
      | Some (VList cs) \<Rightarrow> Some cs
      | Some _ \<Rightarrow> None)"

text \<open>A list of CIDR blocks as the check expects it: every element is a string.\<close>

definition all_strings :: "pyval list \<Rightarrow> bool" where
  "all_strings cs = list_all (\<lambda>c. case c of VStr s \<Rightarrow> True | _ \<Rightarrow> False) cs"

text \<open>
  A well-formed record: every attribute the checks read is missing or has the shape
  the host produces. \<^verbatim>\<open>bucket\<close> and \<^verbatim>\<open>name\<close> are falsy, a string, or a sequence
  starting with a string; \<^verbatim>\<open>tags\<close> is in wrapped form and its \<^verbatim>\<open>Team\<close>,
  \<^verbatim>\<open>Environment\<close> and \<^verbatim>\<open>ManagedBy\<close> values are strings when present;
  \<^verbatim>\<open>description\<close> is in wrapped form; a non-empty \<^verbatim>\<open>backup_retention_period\<close>
  sequence starts with an integer or a boolean; a non-empty \<^verbatim>\<open>vpc_config\<close> sequence
  starts with a mapping whose two endpoint flags are missing or non-empty sequences and
  whose \<^verbatim>\<open>public_access_cidrs\<close> is missing or a list.
\<close>

definition name_shape :: "pydict \<Rightarrow> string \<Rightarrow> bool" where
  "name_shape conf key =
     (case map_of conf key of
        None \<Rightarrow> True
      | Some v \<Rightarrow>
          \<not> truthy v \<or> (case v of VStr s \<Rightarrow> True | VList (VStr s # r) \<Rightarrow> True | _ \<Rightarrow> False))"

definition tag_is_str :: "pydict \<Rightarrow> string \<Rightarrow> bool" where
  "tag_is_str d key =
     (case map_of d key of None \<Rightarrow> True | Some (VStr s) \<Rightarrow> True | Some _ \<Rightarrow> False)"

definition retention_shape :: "pydict \<Rightarrow> bool" where
  "retention_shape conf =
     (case map_of conf ''backup_retention_period'' of
        Some (VList (x # r)) \<Rightarrow> (case x of VInt n \<Rightarrow> True | VBool b \<Rightarrow> True | _ \<Rightarrow> False)
      | _ \<Rightarrow> True)"

definition vpc_shape :: "pydict \<Rightarrow> bool" where
  "vpc_shape conf =
     (case map_of conf ''vpc_config'' of
        Some (VList (x # r)) \<Rightarrow>
          (case x of
             VDict vc \<Rightarrow>
               wrapped_flag vc ''endpoint_private_access'' False \<noteq> None
               \<and> wrapped_flag vc ''endpoint_public_access'' True \<noteq> None
               \<and> cidr_list vc \<noteq> None
           | _ \<Rightarrow> False)
      | _ \<Rightarrow> True)"

definition well_formed :: "pydict \<Rightarrow> bool" where
  "well_formed conf \<longleftrightarrow>
     name_shape conf ''bucket'' \<and> name_shape conf ''name''
     \<and> (case wrapped_tags conf of
          None \<Rightarrow> False
        | Some d \<Rightarrow> tag_is_str d ''Team'' \<and> tag_is_str d ''Environment''
            \<and> tag_is_str d ''ManagedBy'')
     \<and> wrapped_description conf \<noteq> None
     \<and> retention_shape conf \<and> vpc_shape conf"

text \<open>A check returns a verdict: it does not raise, and the verdict is one of the two
  that the checks produce.\<close>

definition returns_verdict :: "py_error + CheckResult \<Rightarrow> bool" where
  "returns_verdict r \<longleftrightarrow> r = Inr PASSED \<or> r = Inr FAILED"

section \<open>The naming checks 001, 003 and 004\<close>

lemma str_contains_sublist: "str_contains p s = sublist p s"
  by (induction s) (simp_all add: sublist_Cons_right)

lemma spec_bucket_rule_Nil: "\<not> spec_bucket_rule []"
  by (simp add: spec_bucket_rule_def)

lemma s3_body_string:
  "(case py_any (method_startswith (VStr name)) valid_prefixes of
               Inl e \<Rightarrow> Inl e
             | Inr has_valid_prefix \<Rightarrow>
                 (case py_any (\<lambda>env. py_in env (VStr name)) valid_environments_s3 of
                    Inl e \<Rightarrow> Inl e
                  | Inr has_valid_env \<Rightarrow>
                      Inr (if has_valid_prefix \<and> has_valid_env then PASSED else FAILED)))
    = Inr (if spec_bucket_rule name then PASSED else FAILED)"
  by (auto simp: valid_prefixes_def valid_environments_s3_def spec_bucket_rule_def str_contains_sublist)

lemma s3_on_string:
  assumes "dict_get conf ''bucket'' VNone = VStr name \<or> dict_get conf ''bucket'' VNone = VList (VStr name # r)"
  shows "EightpointS3BucketNaming_scan_resource_conf conf = Inr (if spec_bucket_rule name then PASSED else FAILED)"
  using assms
proof (elim disjE)
  assume a: "dict_get conf ''bucket'' VNone = VStr name"
  show ?thesis
    unfolding EightpointS3BucketNaming_scan_resource_conf_def Let_def a
    by (simp add: s3_body_string spec_bucket_rule_Nil)
next
  assume a: "dict_get conf ''bucket'' VNone = VList (VStr name # r)"
  show ?thesis
    unfolding EightpointS3BucketNaming_scan_resource_conf_def Let_def a
    by (simp add: s3_body_string spec_bucket_rule_Nil)
qed

lemma spec_get_Some:
  "spec_get conf k = Some x \<longleftrightarrow>
     (map_of conf k = Some x \<and> \<not> isinstance_list x) \<or> (\<exists>r. map_of conf k = Some (VList (x # r)))"
  by (auto simp: spec_get_def split: option.splits pyval.splits list.splits)

lemma spec_get_None:
  "spec_get conf k = None \<longleftrightarrow> map_of conf k = None \<or> map_of conf k = Some (VList [])"
  by (auto simp: spec_get_def split: option.splits pyval.splits list.splits)

lemma py_any_startswith_nonstr:
  "\<forall>s. v \<noteq> VStr s \<Longrightarrow> py_any (method_startswith v) valid_prefixes = Inl AttributeError"
  by (cases v) (simp_all add: valid_prefixes_def)

lemma s3_passed_only_string:
  assumes "EightpointS3BucketNaming_scan_resource_conf conf = Inr PASSED"
  shows "\<exists>name. spec_get conf ''bucket'' = Some (VStr name) \<and> spec_bucket_rule name"
proof (cases "map_of conf ''bucket''")
  case None
  with assms show ?thesis
    by (simp add: EightpointS3BucketNaming_scan_resource_conf_def dict_get_def)
next
  case (Some v)
  show ?thesis
  proof (cases "\<exists>name. spec_get conf ''bucket'' = Some (VStr name)")
    case True
    then obtain name where n: "spec_get conf ''bucket'' = Some (VStr name)" by blast
    then have "dict_get conf ''bucket'' VNone = VStr name \<or> (\<exists>r. dict_get conf ''bucket'' VNone = VList (VStr name # r))"
      by (auto simp: spec_get_Some dict_get_def)
    then have "EightpointS3BucketNaming_scan_resource_conf conf = Inr (if spec_bucket_rule name then PASSED else FAILED)"
      using s3_on_string by blast
    with assms n show ?thesis by (auto split: if_splits)
  next
    case False
    with Some assms show ?thesis
      apply (cases v)
      apply (auto simp: EightpointS3BucketNaming_scan_resource_conf_def dict_get_def Let_def spec_get_def
           py_any_startswith_nonstr split: list.splits if_splits)
      done
  qed
qed

lemma sg_on_string:
  assumes "dict_get conf ''name'' VNone = VStr name \<or> dict_get conf ''name'' VNone = VList (VStr name # r)"
  shows "EightpointSecurityGroupNaming_scan_resource_conf conf =
           Inr (if spec_name_rule (\<lambda>p. p) name then PASSED else FAILED)"
  using assms
proof (elim disjE)
  assume a: "dict_get conf ''name'' VNone = VStr name"
  show ?thesis
    unfolding EightpointSecurityGroupNaming_scan_resource_conf_def Let_def a
    by (auto simp: spec_name_rule_def name_teams_def name_environments_def)
next
  assume a: "dict_get conf ''name'' VNone = VList (VStr name # r)"
  show ?thesis
    unfolding EightpointSecurityGroupNaming_scan_resource_conf_def Let_def a
    by (auto simp: spec_name_rule_def name_teams_def name_environments_def)
qed

lemma iam_on_string:
  assumes "dict_get conf ''name'' VNone = VStr name \<or> dict_get conf ''name'' VNone = VList (VStr name # r)"
  shows "EightpointIAMRoleNaming_scan_resource_conf conf =
           Inr (if spec_name_rule str_lower name then PASSED else FAILED)"
  using assms
proof (elim disjE)
  assume a: "dict_get conf ''name'' VNone = VStr name"
  show ?thesis
    unfolding EightpointIAMRoleNaming_scan_resource_conf_def Let_def a
    by (auto simp: spec_name_rule_def name_teams_def name_environments_def)
next
  assume a: "dict_get conf ''name'' VNone = VList (VStr name # r)"
  show ?thesis
    unfolding EightpointIAMRoleNaming_scan_resource_conf_def Let_def a
    by (auto simp: spec_name_rule_def name_teams_def name_environments_def)
qed

lemma spec_get_string:
  "spec_get conf k = Some (VStr name) \<Longrightarrow>
     dict_get conf k VNone = VStr name \<or> (\<exists>r. dict_get conf k VNone = VList (VStr name # r))"
  by (auto simp: spec_get_Some dict_get_def)

lemma method_split_nonstr:
  "\<forall>s. v \<noteq> VStr s \<Longrightarrow> method_split v sep = Inl AttributeError"
  by (cases v) simp_all

lemma sg_passed_only_string:
  assumes "EightpointSecurityGroupNaming_scan_resource_conf conf = Inr PASSED"
  shows "\<exists>name. spec_get conf ''name'' = Some (VStr name) \<and> spec_name_rule (\<lambda>p. p) name"
proof (cases "\<exists>name. spec_get conf ''name'' = Some (VStr name)")
  case True
  then obtain name where n: "spec_get conf ''name'' = Some (VStr name)" by blast
  from spec_get_string [OF n] sg_on_string
  have "EightpointSecurityGroupNaming_scan_resource_conf conf =
          Inr (if spec_name_rule (\<lambda>p. p) name then PASSED else FAILED)" by blast
  with assms n show ?thesis by (auto split: if_splits)
next
  case False
  show ?thesis
  proof (cases "map_of conf ''name''")
    case None
    with assms show ?thesis
      by (simp add: EightpointSecurityGroupNaming_scan_resource_conf_def dict_get_def)
  next
    case (Some v)
    with False assms show ?thesis
      by (cases v)
        (auto simp: EightpointSecurityGroupNaming_scan_resource_conf_def dict_get_def Let_def
           spec_get_def method_split_nonstr split: list.splits if_splits)
  qed
qed

lemma str_lower_literals:
  "str_lower ''ios'' = ''ios''" "str_lower ''android'' = ''android''"
  "str_lower ''shared'' = ''shared''" "str_lower ''dev'' = ''dev''"
  "str_lower ''prod'' = ''prod''" "str_lower ''global'' = ''global''"
  by (simp_all add: str_lower_def lower_char_def)

lemma spec_name_rule_exact_imp_lower: "spec_name_rule (\<lambda>p. p) name \<Longrightarrow> spec_name_rule str_lower name"
  unfolding spec_name_rule_def Let_def
  by (auto simp: str_lower_literals)

section \<open>Claims about the naming checks\<close>

text \<open>
  Claim C7 (check 001, S3 bucket naming). The check returns \<open>FAILED\<close> when the bucket
  attribute is absent (missing, an empty sequence, or \<^verbatim>\<open>None\<close>). When the unwrapped
  bucket name is the string \<open>name\<close>, it returns \<open>PASSED\<close> if \<open>name\<close> starts with one of
  \<^verbatim>\<open>ios-\<close>, \<^verbatim>\<open>android-\<close>, \<^verbatim>\<open>shared-\<close>, \<^verbatim>\<open>mob-\<close> and contains one of \<^verbatim>\<open>-dev-\<close>,
  \<^verbatim>\<open>-prod-\<close>, \<^verbatim>\<open>-global-\<close>, and \<open>FAILED\<close> otherwise. On every record whatsoever,
  \<open>PASSED\<close> is returned only for such a name.
\<close>

theorem C7_s3_bucket_naming:
  "(spec_get conf ''bucket'' = None \<longrightarrow>
      EightpointS3BucketNaming_scan_resource_conf conf = Inr FAILED)
   \<and> (spec_get conf ''bucket'' = Some VNone \<longrightarrow>
      EightpointS3BucketNaming_scan_resource_conf conf = Inr FAILED)
   \<and> (\<forall>name. spec_get conf ''bucket'' = Some (VStr name) \<longrightarrow>
      EightpointS3BucketNaming_scan_resource_conf conf =
        Inr (if spec_bucket_rule name then PASSED else FAILED))
   \<and> (EightpointS3BucketNaming_scan_resource_conf conf = Inr PASSED \<longrightarrow>
      (\<exists>name. spec_get conf ''bucket'' = Some (VStr name) \<and> spec_bucket_rule name))"
proof (intro conjI impI allI)
  assume "spec_get conf ''bucket'' = None"
  then show "EightpointS3BucketNaming_scan_resource_conf conf = Inr FAILED"
    by (auto simp: spec_get_None EightpointS3BucketNaming_scan_resource_conf_def dict_get_def)
next
  assume "spec_get conf ''bucket'' = Some VNone"
  then show "EightpointS3BucketNaming_scan_resource_conf conf = Inr FAILED"
    by (auto simp: spec_get_Some EightpointS3BucketNaming_scan_resource_conf_def dict_get_def)
next
  fix name
  assume "spec_get conf ''bucket'' = Some (VStr name)"
  from spec_get_string [OF this] s3_on_string
  show "EightpointS3BucketNaming_scan_resource_conf conf =
          Inr (if spec_bucket_rule name then PASSED else FAILED)"
    by blast
next
  assume "EightpointS3BucketNaming_scan_resource_conf conf = Inr PASSED"
  then show "\<exists>name. spec_get conf ''bucket'' = Some (VStr name) \<and> spec_bucket_rule name"
    by (rule s3_passed_only_string)
qed

theorem C7_s3_bucket_naming_witness:
  "EightpointS3BucketNaming_scan_resource_conf
     [(''bucket'', VList [VStr ''ios-dev-terraform-state''])] = Inr PASSED
   \<and> EightpointS3BucketNaming_scan_resource_conf
     [(''bucket'', VStr ''ios-terraform-state'')] = Inr FAILED
   \<and> EightpointS3BucketNaming_scan_resource_conf [(''bucket'', VNone)] = Inr FAILED
   \<and> EightpointS3BucketNaming_scan_resource_conf [] = Inr FAILED"
  using C7_s3_bucket_naming [of "[(''bucket'', VList [VStr ''ios-dev-terraform-state''])]"]
    C7_s3_bucket_naming [of "[(''bucket'', VStr ''ios-terraform-state'')]"]
    C7_s3_bucket_naming [of "[(''bucket'', VNone)]"]
    C7_s3_bucket_naming [of "[]"]
  by (simp add: spec_get_def spec_bucket_rule_def str_contains_sublist [symmetric])

text \<open>
  Claim C8 (checks 003 and 004). On a record whose unwrapped name is the string \<open>name\<close>,
  both checks apply the same structural rule (split on \<^verbatim>\<open>-\<close>, at least four parts,
  part 0 a team, part 1 an environment, nothing past index 1), 003 on the parts as
  written and 004 on the lower-cased parts. Whenever 003 returns \<open>PASSED\<close> on a record,
  004 returns \<open>PASSED\<close> on every record with the same name; the name
  \<^verbatim>\<open>IOS-dev-eks-cluster\<close> fails 003 and passes 004.
\<close>

theorem C8_sg_vs_iam_naming:
  "(\<forall>name. spec_get conf ''name'' = Some (VStr name) \<longrightarrow>
      EightpointSecurityGroupNaming_scan_resource_conf conf =
        Inr (if spec_name_rule (\<lambda>p. p) name then PASSED else FAILED)
      \<and> EightpointIAMRoleNaming_scan_resource_conf conf =
        Inr (if spec_name_rule str_lower name then PASSED else FAILED))
   \<and> (EightpointSecurityGroupNaming_scan_resource_conf conf = Inr PASSED
        \<and> spec_get conf' ''name'' = spec_get conf ''name'' \<longrightarrow>
      EightpointIAMRoleNaming_scan_resource_conf conf' = Inr PASSED)
   \<and> EightpointSecurityGroupNaming_scan_resource_conf
        [(''name'', VStr ''IOS-dev-eks-cluster'')] = Inr FAILED
   \<and> EightpointIAMRoleNaming_scan_resource_conf
        [(''name'', VStr ''IOS-dev-eks-cluster'')] = Inr PASSED"
proof (intro conjI impI allI)
  fix name
  assume n: "spec_get conf ''name'' = Some (VStr name)"
  from spec_get_string [OF n] sg_on_string
  show "EightpointSecurityGroupNaming_scan_resource_conf conf =
          Inr (if spec_name_rule (\<lambda>p. p) name then PASSED else FAILED)"
    by blast
  from spec_get_string [OF n] iam_on_string
  show "EightpointIAMRoleNaming_scan_resource_conf conf =
          Inr (if spec_name_rule str_lower name then PASSED else FAILED)"
    by blast
next
  assume a: "EightpointSecurityGroupNaming_scan_resource_conf conf = Inr PASSED
        \<and> spec_get conf' ''name'' = spec_get conf ''name''"
  then obtain name where n: "spec_get conf ''name'' = Some (VStr name)"
    and r: "spec_name_rule (\<lambda>p. p) name"
    using sg_passed_only_string by blast
  from a n have "spec_get conf' ''name'' = Some (VStr name)" by simp
  from spec_get_string [OF this] iam_on_string
  have "EightpointIAMRoleNaming_scan_resource_conf conf' =
          Inr (if spec_name_rule str_lower name then PASSED else FAILED)"
    by blast
  with spec_name_rule_exact_imp_lower [OF r]
  show "EightpointIAMRoleNaming_scan_resource_conf conf' = Inr PASSED" by simp
next
  show "EightpointSecurityGroupNaming_scan_resource_conf
        [(''name'', VStr ''IOS-dev-eks-cluster'')] = Inr FAILED"
    by (simp add: EightpointSecurityGroupNaming_scan_resource_conf_def dict_get_def
        name_teams_def name_environments_def)
next
  show "EightpointIAMRoleNaming_scan_resource_conf
        [(''name'', VStr ''IOS-dev-eks-cluster'')] = Inr PASSED"
    by (simp add: EightpointIAMRoleNaming_scan_resource_conf_def dict_get_def
        name_teams_def name_environments_def str_lower_def lower_char_def)
qed

theorem C8_sg_vs_iam_naming_witness:
  "EightpointSecurityGroupNaming_scan_resource_conf
     [(''name'', VList [VStr ''ios-dev-eks-cluster''])] = Inr PASSED
   \<and> EightpointIAMRoleNaming_scan_resource_conf
     [(''name'', VStr ''ios-dev-eks-cluster'')] = Inr PASSED
   \<and> EightpointSecurityGroupNaming_scan_resource_conf
     [(''name'', VStr ''ios-dev'')] = Inr FAILED
   \<and> EightpointIAMRoleNaming_scan_resource_conf
     [(''name'', VStr ''iOS-Dev-EKS-NodeGroup'')] = Inr PASSED"
  using C8_sg_vs_iam_naming [of "[(''name'', VList [VStr ''ios-dev-eks-cluster''])]"
      "[(''name'', VStr ''ios-dev-eks-cluster'')]"]
    C8_sg_vs_iam_naming [of "[(''name'', VStr ''ios-dev'')]" "[]"]
    C8_sg_vs_iam_naming [of "[(''name'', VStr ''iOS-Dev-EKS-NodeGroup'')]" "[]"]
  by (simp add: spec_get_def spec_name_rule_def str_lower_def lower_char_def)

text \<open>
  Claim C10 (checks 001, 003, 004). A record whose examined attribute (\<^verbatim>\<open>bucket\<close>, or
  \<^verbatim>\<open>name\<close>) is missing, holds the empty string, or holds a one-element sequence
  wrapping the empty string gets \<open>FAILED\<close>: the wrapped empty string is unwrapped by
  \<^verbatim>\<open>v[0]\<close> to the empty string, which is falsy exactly as the \<^verbatim>\<open>None\<close> of a
  missing attribute is, so all three take the final \<^verbatim>\<open>return CheckResult.FAILED\<close>.
\<close>

theorem C10_empty_name_is_absent:
  "(map_of conf ''bucket'' = None \<or> map_of conf ''bucket'' = Some (VStr '''')
      \<or> map_of conf ''bucket'' = Some (VList [VStr '''']) \<longrightarrow>
      EightpointS3BucketNaming_scan_resource_conf conf = Inr FAILED)
   \<and> (map_of conf ''name'' = None \<or> map_of conf ''name'' = Some (VStr '''')
      \<or> map_of conf ''name'' = Some (VList [VStr '''']) \<longrightarrow>
      EightpointSecurityGroupNaming_scan_resource_conf conf = Inr FAILED
      \<and> EightpointIAMRoleNaming_scan_resource_conf conf = Inr FAILED)
   \<and> getitem0 (VList [VStr '''']) = Inr (VStr '''')
   \<and> truthy (VStr '''') = truthy VNone
   \<and> \<not> truthy (VStr '''')"
  by (auto simp: EightpointS3BucketNaming_scan_resource_conf_def
      EightpointSecurityGroupNaming_scan_resource_conf_def
      EightpointIAMRoleNaming_scan_resource_conf_def dict_get_def)

theorem C10_empty_name_is_absent_witness:
  "EightpointS3BucketNaming_scan_resource_conf [(''bucket'', VStr '''')] = Inr FAILED
   \<and> EightpointS3BucketNaming_scan_resource_conf [(''bucket'', VList [VStr ''''])] = Inr FAILED
   \<and> EightpointSecurityGroupNaming_scan_resource_conf [(''name'', VStr '''')] = Inr FAILED
   \<and> EightpointIAMRoleNaming_scan_resource_conf [(''name'', VList [VStr ''''])] = Inr FAILED"
  using C10_empty_name_is_absent [of "[(''bucket'', VStr '''')]"]
    C10_empty_name_is_absent [of "[(''bucket'', VList [VStr ''''])]"]
    C10_empty_name_is_absent [of "[(''name'', VStr '''')]"]
    C10_empty_name_is_absent [of "[(''name'', VList [VStr ''''])]"]
  by simp

section \<open>The tagging check 002\<close>

lemma py_in_dict: "py_in k (VDict d) = Inr (map_of d k \<noteq> None)"
  by (simp add: map_of_eq_None_iff)

lemma required_tag_missing_dict:
  "required_tag_missing ks (VDict d) = Inr (\<exists>k\<in>set ks. map_of d k = None)"
  by (induction ks) (auto simp: py_in_dict simp del: py_in.simps)

lemma tag_lower_dict:
  "tag_lower (VDict d) k = method_lower (case map_of d k of None \<Rightarrow> VStr '''' | Some v \<Rightarrow> v)"
  by (simp add: tag_lower_def dict_get_def)

lemma tagging_on_dict:
  assumes "map_of conf ''tags'' = Some (VList (VDict d # r))"
  shows "EightpointResourceTagging_scan_resource_conf conf =
    (if map_of d ''Team'' = None \<or> map_of d ''Environment'' = None
        \<or> map_of d ''Project'' = None \<or> map_of d ''ManagedBy'' = None then Inr FAILED
     else case method_lower (case map_of d ''Team'' of None \<Rightarrow> VStr '''' | Some v \<Rightarrow> v) of
        Inl e \<Rightarrow> Inl e
      | Inr team_value \<Rightarrow>
          if team_value \<notin> set valid_teams then Inr FAILED
          else case method_lower (case map_of d ''Environment'' of None \<Rightarrow> VStr '''' | Some v \<Rightarrow> v) of
            Inl e \<Rightarrow> Inl e
          | Inr env_value \<Rightarrow>
              if env_value \<notin> set valid_environments_tags then Inr FAILED
              else case method_lower (case map_of d ''ManagedBy'' of None \<Rightarrow> VStr '''' | Some v \<Rightarrow> v) of
                Inl e \<Rightarrow> Inl e
              | Inr managed_by \<Rightarrow>
                  if managed_by \<noteq> ''terraform'' then Inr FAILED else Inr PASSED)"
proof -
  have g: "dict_get conf ''tags'' VNone = VList (VDict d # r)"
    using assms by (simp add: dict_get_def)
  have m: "required_tag_missing required_tags (VDict d) =
      Inr (map_of d ''Team'' = None \<or> map_of d ''Environment'' = None
        \<or> map_of d ''Project'' = None \<or> map_of d ''ManagedBy'' = None)"
    unfolding required_tag_missing_dict by (simp add: required_tags_def)
  show ?thesis
    unfolding EightpointResourceTagging_scan_resource_conf_def Let_def g
    by (simp add: m tag_lower_dict del: method_lower.simps cong: sum.case_cong if_cong)
qed

lemma tagging_depends_on_required:
  assumes "map_of conf1 ''tags'' = Some (VList (VDict d1 # r1))"
    and "map_of conf2 ''tags'' = Some (VList (VDict d2 # r2))"
    and "\<forall>k\<in>set required_tags. map_of d1 k = map_of d2 k"
  shows "EightpointResourceTagging_scan_resource_conf conf1 =
         EightpointResourceTagging_scan_resource_conf conf2"
proof -
  from assms(3) have "map_of d1 ''Team'' = map_of d2 ''Team''"
    "map_of d1 ''Environment'' = map_of d2 ''Environment''"
    "map_of d1 ''Project'' = map_of d2 ''Project''"
    "map_of d1 ''ManagedBy'' = map_of d2 ''ManagedBy''"
    by (simp_all add: required_tags_def)
  then show ?thesis
    unfolding tagging_on_dict [OF assms(1)] tagging_on_dict [OF assms(2)] by (simp only:)
qed

lemma map_of_filter_other:
  "k' \<noteq> k \<Longrightarrow> map_of (filter (\<lambda>p. fst p \<noteq> k) d) k' = map_of d k'"
  by (induction d) auto

section \<open>Claims about the tagging check\<close>

text \<open>
  Claim C9 (check 002). The result depends only on the four keys \<^verbatim>\<open>Team\<close>,
  \<^verbatim>\<open>Environment\<close>, \<^verbatim>\<open>Project\<close>, \<^verbatim>\<open>ManagedBy\<close> of the tag mapping that the check
  unwraps (the first element of the \<^verbatim>\<open>tags\<close> sequence): two records whose tag
  mappings agree on the presence and the values of these four keys get the same
  result, so adding a tag with any other key, or removing every tag with another key,
  changes nothing.
\<close>

theorem C9_tagging_depends_on_required_keys:
  "(map_of conf1 ''tags'' = Some (VList (VDict d1 # r1))
      \<and> map_of conf2 ''tags'' = Some (VList (VDict d2 # r2))
      \<and> (\<forall>k\<in>{''Team'', ''Environment'', ''Project'', ''ManagedBy''}. map_of d1 k = map_of d2 k) \<longrightarrow>
      EightpointResourceTagging_scan_resource_conf conf1 =
      EightpointResourceTagging_scan_resource_conf conf2)
   \<and> (k \<notin> {''Team'', ''Environment'', ''Project'', ''ManagedBy''} \<longrightarrow>
      EightpointResourceTagging_scan_resource_conf [(''tags'', VList [VDict ((k, v) # d)])] =
      EightpointResourceTagging_scan_resource_conf [(''tags'', VList [VDict d])]
      \<and> EightpointResourceTagging_scan_resource_conf
          [(''tags'', VList [VDict (filter (\<lambda>p. fst p \<noteq> k) d)])] =
        EightpointResourceTagging_scan_resource_conf [(''tags'', VList [VDict d])])"
proof (intro conjI impI)
  assume a: "map_of conf1 ''tags'' = Some (VList (VDict d1 # r1))
      \<and> map_of conf2 ''tags'' = Some (VList (VDict d2 # r2))
      \<and> (\<forall>k\<in>{''Team'', ''Environment'', ''Project'', ''ManagedBy''}. map_of d1 k = map_of d2 k)"
  then have "\<forall>k\<in>set required_tags. map_of d1 k = map_of d2 k"
    by (simp add: required_tags_def)
  with a show "EightpointResourceTagging_scan_resource_conf conf1 =
      EightpointResourceTagging_scan_resource_conf conf2"
    using tagging_depends_on_required by blast
next
  assume k: "k \<notin> {''Team'', ''Environment'', ''Project'', ''ManagedBy''}"
  then have h1: "\<forall>k'\<in>set required_tags. map_of ((k, v) # d) k' = map_of d k'"
    by (auto simp: required_tags_def)
  show "EightpointResourceTagging_scan_resource_conf [(''tags'', VList [VDict ((k, v) # d)])] =
      EightpointResourceTagging_scan_resource_conf [(''tags'', VList [VDict d])]"
    by (rule tagging_depends_on_required [OF _ _ h1]) simp_all
  from k have h2: "\<forall>k'\<in>set required_tags. map_of (filter (\<lambda>p. fst p \<noteq> k) d) k' = map_of d k'"
    by (auto simp: required_tags_def map_of_filter_other)
  show "EightpointResourceTagging_scan_resource_conf
          [(''tags'', VList [VDict (filter (\<lambda>p. fst p \<noteq> k) d)])] =
        EightpointResourceTagging_scan_resource_conf [(''tags'', VList [VDict d])]"
    by (rule tagging_depends_on_required [OF _ _ h2]) simp_all
qed

theorem C9_tagging_depends_on_required_keys_witness:
  "EightpointResourceTagging_scan_resource_conf
     [(''tags'', VList [VDict ((''Owner'', VInt 3) # good_tags)])] = Inr PASSED
   \<and> EightpointResourceTagging_scan_resource_conf
     [(''tags'', VList [VDict (rev good_tags), VNone]), (''name'', VStr ''x'')] = Inr PASSED"
proof -
  have p: "EightpointResourceTagging_scan_resource_conf [(''tags'', VList [VDict good_tags])]
      = Inr PASSED"
    by (simp add: EightpointResourceTagging_scan_resource_conf_def dict_get_def 
        required_tags_def tag_lower_def valid_teams_def valid_environments_tags_def
        str_lower_def lower_char_def)
  show ?thesis
    using C9_tagging_depends_on_required_keys [of
        "[(''tags'', VList [VDict (rev good_tags), VNone]), (''name'', VStr ''x'')]"
        "rev good_tags" "[VNone]" "[(''tags'', VList [VDict good_tags])]" good_tags "[]"
        "''Owner''" "VInt 3" good_tags] p
    by (simp add: )
qed

text \<open>
  Claim C6 (check 002), as amended. The check returns \<open>FAILED\<close> when \<^verbatim>\<open>tags\<close> is
  missing, falsy, or not a sequence. When \<^verbatim>\<open>tags\<close> is a sequence whose first element
  is a mapping: \<open>FAILED\<close> if one of the four required keys is missing; and, the values
  of \<^verbatim>\<open>Team\<close>, \<^verbatim>\<open>Environment\<close> and \<^verbatim>\<open>ManagedBy\<close> being strings, \<open>PASSED\<close> if the
  lower-cased team is one of ios, android, shared, the lower-cased environment one of
  dev, prod, global, test, and the lower-cased \<^verbatim>\<open>ManagedBy\<close> is terraform, \<open>FAILED\<close>
  otherwise; \<^verbatim>\<open>Project\<close> may hold any value.
\<close>

theorem C6_resource_tagging_amended:
  "(map_of conf ''tags'' = None \<longrightarrow>
      EightpointResourceTagging_scan_resource_conf conf = Inr FAILED)
   \<and> (\<forall>v. map_of conf ''tags'' = Some v \<and> (\<not> truthy v \<or> \<not> isinstance_list v) \<longrightarrow>
      EightpointResourceTagging_scan_resource_conf conf = Inr FAILED)
   \<and> (\<forall>d r. map_of conf ''tags'' = Some (VList (VDict d # r)) \<longrightarrow>
        ((\<exists>k\<in>{''Team'', ''Environment'', ''Project'', ''ManagedBy''}. map_of d k = None) \<longrightarrow>
           EightpointResourceTagging_scan_resource_conf conf = Inr FAILED)
        \<and> (\<forall>team env project managed.
             map_of d ''Team'' = Some (VStr team) \<and> map_of d ''Environment'' = Some (VStr env)
             \<and> map_of d ''Project'' = Some project \<and> map_of d ''ManagedBy'' = Some (VStr managed) \<longrightarrow>
             EightpointResourceTagging_scan_resource_conf conf =
               Inr (if str_lower team \<in> {''ios'', ''android'', ''shared''}
                       \<and> str_lower env \<in> {''dev'', ''prod'', ''global'', ''test''}
                       \<and> str_lower managed = ''terraform''
                    then PASSED else FAILED)))"
proof (intro conjI impI allI)
  assume "map_of conf ''tags'' = None"
  then show "EightpointResourceTagging_scan_resource_conf conf = Inr FAILED"
    by (simp add: EightpointResourceTagging_scan_resource_conf_def dict_get_def)
next
  fix v
  assume "map_of conf ''tags'' = Some v \<and> (\<not> truthy v \<or> \<not> isinstance_list v)"
  then show "EightpointResourceTagging_scan_resource_conf conf = Inr FAILED"
    by (auto simp: EightpointResourceTagging_scan_resource_conf_def dict_get_def)
next
  fix d r
  assume t: "map_of conf ''tags'' = Some (VList (VDict d # r))"
    and "\<exists>k\<in>{''Team'', ''Environment'', ''Project'', ''ManagedBy''}. map_of d k = None"
  then show "EightpointResourceTagging_scan_resource_conf conf = Inr FAILED"
    unfolding tagging_on_dict [OF t] by auto
next
  fix d r team env project managed
  assume t: "map_of conf ''tags'' = Some (VList (VDict d # r))"
    and "map_of d ''Team'' = Some (VStr team) \<and> map_of d ''Environment'' = Some (VStr env)
             \<and> map_of d ''Project'' = Some project \<and> map_of d ''ManagedBy'' = Some (VStr managed)"
  then show "EightpointResourceTagging_scan_resource_conf conf =
               Inr (if str_lower team \<in> {''ios'', ''android'', ''shared''}
                       \<and> str_lower env \<in> {''dev'', ''prod'', ''global'', ''test''}
                       \<and> str_lower managed = ''terraform''
                    then PASSED else FAILED)"
    unfolding tagging_on_dict [OF t]
    by (auto simp: valid_teams_def valid_environments_tags_def)
qed

theorem C6_resource_tagging_amended_witness:
  "EightpointResourceTagging_scan_resource_conf [(''tags'', VList [VDict good_tags])] = Inr PASSED
   \<and> EightpointResourceTagging_scan_resource_conf
        [(''tags'', VList [VDict [(''Team'', VStr ''web''), (''Environment'', VStr ''dev''),
           (''Project'', VStr ''x''), (''ManagedBy'', VStr ''terraform'')]])] = Inr FAILED
   \<and> EightpointResourceTagging_scan_resource_conf
        [(''tags'', VList [VDict [(''Team'', VStr ''ios''), (''Environment'', VStr ''dev''),
           (''ManagedBy'', VStr ''terraform'')]])] = Inr FAILED
   \<and> EightpointResourceTagging_scan_resource_conf [(''tags'', VList [])] = Inr FAILED
   \<and> EightpointResourceTagging_scan_resource_conf [] = Inr FAILED"
  using C6_resource_tagging_amended [of "[(''tags'', VList [VDict good_tags])]"]
    C6_resource_tagging_amended [of "[(''tags'', VList [VDict [(''Team'', VStr ''web''),
           (''Environment'', VStr ''dev''), (''Project'', VStr ''x''),
           (''ManagedBy'', VStr ''terraform'')]])]"]
    C6_resource_tagging_amended [of "[(''tags'', VList [VDict [(''Team'', VStr ''ios''),
           (''Environment'', VStr ''dev''), (''ManagedBy'', VStr ''terraform'')]])]"]
    C6_resource_tagging_amended [of "[(''tags'', VList [])]"]
    C6_resource_tagging_amended [of "[]"]
  by (simp add:  str_lower_def lower_char_def)

text \<open>
  The claim as first stated fails: a \<^verbatim>\<open>tags\<close> sequence wrapping the integer 5 does
  not unwrap to a mapping, and the check raises \<^verbatim>\<open>TypeError\<close> instead of returning
  \<open>FAILED\<close>; and a bare mapping of valid tags, which the accessor of the specification
  reads as that mapping, is \<open>FAILED\<close> where the same mapping wrapped in a sequence is
  \<open>PASSED\<close>.
\<close>

theorem C6_resource_tagging_counterexample:
  "spec_get [(''tags'', VList [VInt 5])] ''tags'' = Some (VInt 5)
   \<and> EightpointResourceTagging_scan_resource_conf [(''tags'', VList [VInt 5])] = Inl TypeError
   \<and> spec_get [(''tags'', VDict good_tags)] ''tags'' = Some (VDict good_tags)
   \<and> EightpointResourceTagging_scan_resource_conf [(''tags'', VDict good_tags)] = Inr FAILED
   \<and> EightpointResourceTagging_scan_resource_conf [(''tags'', VList [VDict good_tags])] = Inr PASSED"
  by (simp add: EightpointResourceTagging_scan_resource_conf_def dict_get_def 
        required_tags_def tag_lower_def valid_teams_def valid_environments_tags_def
        str_lower_def lower_char_def spec_get_def)

section \<open>The configuration checks 005, 006 and 007\<close>

lemma first_tags_wrapped: "wrapped_tags conf = Some d \<Longrightarrow> first_tags conf = Inr (VDict d)"
  by (auto simp: wrapped_tags_def first_tags_def dict_get_def
      split: option.splits if_splits pyval.splits list.splits)

lemma tag_lower_env:
  "env_tag d = Some env \<Longrightarrow> tag_lower (VDict d) ''Environment'' = Inr (str_lower env)"
  by (auto simp: env_tag_def tag_lower_def dict_get_def str_lower_def
      split: option.splits pyval.splits)

lemma description_wrapped:
  "wrapped_description conf = Some desc \<Longrightarrow>
     (if truthy (dict_get conf ''description'' VNone)
      then getitem0 (dict_get conf ''description'' (VList [VStr '''']))
      else Inr (VStr '''')) = Inr (VStr desc)"
  by (auto simp: wrapped_description_def dict_get_def
      split: option.splits if_splits pyval.splits list.splits)

lemma rds_on_wrapped:
  assumes "wrapped_tags conf = Some d" and "env_tag d = Some env"
  shows "EightpointRDSBackupRetention_scan_resource_conf conf =
     (let backup_retention = dict_get conf ''backup_retention_period'' VNone in
      if truthy backup_retention \<and> isinstance_list backup_retention then
        (case getitem0 backup_retention of
           Inl e \<Rightarrow> Inl e
         | Inr retention_days \<Rightarrow>
             (case py_ge retention_days
                (if str_lower env = ''prod'' \<or> str_lower env = ''production'' then 7 else 1) of
                Inl e \<Rightarrow> Inl e
              | Inr ok \<Rightarrow> Inr (if ok then PASSED else FAILED)))
      else Inr FAILED)"
  unfolding EightpointRDSBackupRetention_scan_resource_conf_def
    first_tags_wrapped [OF assms(1)] sum.case tag_lower_env [OF assms(2)] Let_def
  by (simp cong: sum.case_cong)

lemma kms_on_wrapped:
  assumes "wrapped_tags conf = Some d" and "env_tag d = Some env"
    and "wrapped_description conf = Some desc"
  shows "EightpointKMSKeyRotation_scan_resource_conf conf =
     (if str_lower env = ''prod'' \<or> sublist ''prod'' (str_lower desc)
         \<or> sublist ''production'' (str_lower desc)
      then (let rotation_enabled = dict_get conf ''enable_key_rotation'' VNone in
            if truthy rotation_enabled \<and> isinstance_list rotation_enabled then
              (case getitem0 rotation_enabled of
                 Inl e \<Rightarrow> Inl e
               | Inr r \<Rightarrow> Inr (if truthy r then PASSED else FAILED))
            else Inr FAILED)
      else Inr PASSED)"
  unfolding EightpointKMSKeyRotation_scan_resource_conf_def
    first_tags_wrapped [OF assms(1)] sum.case tag_lower_env [OF assms(2)]
    description_wrapped [OF assms(3)] Let_def
  by (simp add: str_contains_sublist)

lemma get_first_flag:
  "wrapped_flag vc key (truthy dflt) = Some b \<Longrightarrow>
     \<exists>x. get_first (VDict vc) key (VList [dflt]) = Inr x \<and> truthy x = b"
  by (auto simp: wrapped_flag_def get_first_def dict_get_def
      split: option.splits pyval.splits list.splits)

lemma eks_on_wrapped:
  assumes "map_of conf ''vpc_config'' = Some (VList (VDict vc # r))"
  shows "EightpointEKSEndpointAccess_scan_resource_conf conf =
     (case get_first (VDict vc) ''endpoint_private_access'' (VList [VBool False]) of
        Inl e \<Rightarrow> Inl e
      | Inr private_access \<Rightarrow>
          if \<not> truthy private_access then Inr FAILED
          else
            (case get_first (VDict vc) ''endpoint_public_access'' (VList [VBool True]) of
               Inl e \<Rightarrow> Inl e
             | Inr public_access \<Rightarrow>
                 if truthy public_access then
                   (let public_cidrs = dict_get vc ''public_access_cidrs'' (VList []) in
                    if \<not> truthy public_cidrs then Inr FAILED
                    else
                      (case py_in ''0.0.0.0/0'' public_cidrs of
                         Inl e \<Rightarrow> Inl e
                       | Inr open_cidr \<Rightarrow> if open_cidr then Inr FAILED else Inr PASSED))
                 else Inr PASSED))"
proof -
  have g: "dict_get conf ''vpc_config'' VNone = VList (VDict vc # r)"
    using assms by (simp add: dict_get_def)
  show ?thesis
    unfolding EightpointEKSEndpointAccess_scan_resource_conf_def Let_def g
    by (simp cong: sum.case_cong if_cong)
qed

lemma cidrs_wrapped:
  "cidr_list vc = Some cs \<Longrightarrow> dict_get vc ''public_access_cidrs'' (VList []) = VList cs"
  by (auto simp: cidr_list_def dict_get_def split: option.splits pyval.splits)

lemma rotation_wrapped:
  "(let rotation_enabled = dict_get conf key VNone in
    if truthy rotation_enabled \<and> isinstance_list rotation_enabled then
      (case getitem0 rotation_enabled of
         Inl e \<Rightarrow> Inl e
       | Inr r \<Rightarrow> Inr (if truthy r then PASSED else FAILED))
    else Inr FAILED) =
   Inr (if \<exists>x xs. map_of conf key = Some (VList (x # xs)) \<and> truthy x then PASSED else FAILED)"
proof (cases "map_of conf key")
  case None
  then show ?thesis by (simp add: dict_get_def)
next
  case (Some v)
  show ?thesis
  proof (cases v)
    case (VList xs)
    with Some show ?thesis by (cases xs) (simp_all add: dict_get_def)
  qed (use Some in \<open>simp_all add: dict_get_def\<close>)
qed

section \<open>Claims about the configuration checks\<close>

text \<open>
  Claim C3 (check 007, EKS endpoint access), as amended. The check returns \<open>FAILED\<close>
  when \<^verbatim>\<open>vpc_config\<close> is missing, falsy, or not a sequence. When \<^verbatim>\<open>vpc_config\<close> is a
  sequence whose first element is a mapping, with \<^verbatim>\<open>endpoint_private_access\<close>
  (default false when missing) and \<^verbatim>\<open>endpoint_public_access\<close> (default true when
  missing) read as the truth value of the first element of their sequences: \<open>FAILED\<close>
  if private access is false; else \<open>PASSED\<close> if public access is false; else, with
  \<^verbatim>\<open>public_access_cidrs\<close> a list of strings (empty when missing), \<open>FAILED\<close> if the
  list is empty or contains the string \<^verbatim>\<open>0.0.0.0/0\<close>, and \<open>PASSED\<close> otherwise.
  Nothing is stated for a \<^verbatim>\<open>public_access_cidrs\<close> list with an element that is not a
  string, such as a list wrapped in a sequence: the check tests the value as it is
  stored, without the \<^verbatim>\<open>[0]\<close> it applies to the two flags.
\<close>

theorem C3_eks_endpoint_access_amended:
  "(map_of conf ''vpc_config'' = None \<longrightarrow>
      EightpointEKSEndpointAccess_scan_resource_conf conf = Inr FAILED)
   \<and> (\<forall>v. map_of conf ''vpc_config'' = Some v \<and> (\<not> truthy v \<or> \<not> isinstance_list v) \<longrightarrow>
      EightpointEKSEndpointAccess_scan_resource_conf conf = Inr FAILED)
   \<and> (\<forall>vc r. map_of conf ''vpc_config'' = Some (VList (VDict vc # r)) \<longrightarrow>
        (wrapped_flag vc ''endpoint_private_access'' False = Some False \<longrightarrow>
           EightpointEKSEndpointAccess_scan_resource_conf conf = Inr FAILED)
        \<and> (wrapped_flag vc ''endpoint_private_access'' False = Some True
             \<and> wrapped_flag vc ''endpoint_public_access'' True = Some False \<longrightarrow>
           EightpointEKSEndpointAccess_scan_resource_conf conf = Inr PASSED)
        \<and> (\<forall>cs. wrapped_flag vc ''endpoint_private_access'' False = Some True
             \<and> wrapped_flag vc ''endpoint_public_access'' True = Some True
             \<and> cidr_list vc = Some cs \<and> all_strings cs \<longrightarrow>
           EightpointEKSEndpointAccess_scan_resource_conf conf =
             Inr (if cs = [] \<or> VStr ''0.0.0.0/0'' \<in> set cs then FAILED else PASSED)))"
proof (intro conjI impI allI)
  assume "map_of conf ''vpc_config'' = None"
  then show "EightpointEKSEndpointAccess_scan_resource_conf conf = Inr FAILED"
    by (simp add: EightpointEKSEndpointAccess_scan_resource_conf_def dict_get_def)
next
  fix v
  assume "map_of conf ''vpc_config'' = Some v \<and> (\<not> truthy v \<or> \<not> isinstance_list v)"
  then show "EightpointEKSEndpointAccess_scan_resource_conf conf = Inr FAILED"
    by (auto simp: EightpointEKSEndpointAccess_scan_resource_conf_def dict_get_def)
next
  fix vc r
  assume v: "map_of conf ''vpc_config'' = Some (VList (VDict vc # r))"
    and "wrapped_flag vc ''endpoint_private_access'' False = Some False"
  then obtain x where "get_first (VDict vc) ''endpoint_private_access'' (VList [VBool False]) = Inr x"
    and "\<not> truthy x"
    using get_first_flag [of vc "''endpoint_private_access''" "VBool False" False] by auto
  then show "EightpointEKSEndpointAccess_scan_resource_conf conf = Inr FAILED"
    unfolding eks_on_wrapped [OF v] by simp
next
  fix vc r
  assume v: "map_of conf ''vpc_config'' = Some (VList (VDict vc # r))"
    and f: "wrapped_flag vc ''endpoint_private_access'' False = Some True
             \<and> wrapped_flag vc ''endpoint_public_access'' True = Some False"
  from f obtain x where x: "get_first (VDict vc) ''endpoint_private_access'' (VList [VBool False]) = Inr x"
    "truthy x"
    using get_first_flag [of vc "''endpoint_private_access''" "VBool False" True] by auto
  from f obtain y where y: "get_first (VDict vc) ''endpoint_public_access'' (VList [VBool True]) = Inr y"
    "\<not> truthy y"
    using get_first_flag [of vc "''endpoint_public_access''" "VBool True" False] by auto
  from x y show "EightpointEKSEndpointAccess_scan_resource_conf conf = Inr PASSED"
    unfolding eks_on_wrapped [OF v] by simp
next
  fix vc r cs
  assume v: "map_of conf ''vpc_config'' = Some (VList (VDict vc # r))"
    and f: "wrapped_flag vc ''endpoint_private_access'' False = Some True
             \<and> wrapped_flag vc ''endpoint_public_access'' True = Some True
             \<and> cidr_list vc = Some cs \<and> all_strings cs"
  from f obtain x where x: "get_first (VDict vc) ''endpoint_private_access'' (VList [VBool False]) = Inr x"
    "truthy x"
    using get_first_flag [of vc "''endpoint_private_access''" "VBool False" True] by auto
  from f obtain y where y: "get_first (VDict vc) ''endpoint_public_access'' (VList [VBool True]) = Inr y"
    "truthy y"
    using get_first_flag [of vc "''endpoint_public_access''" "VBool True" True] by auto
  from f have c: "dict_get vc ''public_access_cidrs'' (VList []) = VList cs"
    by (simp add: cidrs_wrapped)
  from x y show "EightpointEKSEndpointAccess_scan_resource_conf conf =
             Inr (if cs = [] \<or> VStr ''0.0.0.0/0'' \<in> set cs then FAILED else PASSED)"
    unfolding eks_on_wrapped [OF v] c by simp
qed

theorem C3_eks_endpoint_access_amended_witness:
  "EightpointEKSEndpointAccess_scan_resource_conf
     [(''vpc_config'', VList [VDict [(''endpoint_private_access'', VList [VBool True]),
        (''endpoint_public_access'', VList [VBool False])]])] = Inr PASSED
   \<and> EightpointEKSEndpointAccess_scan_resource_conf
     [(''vpc_config'', VList [VDict [(''endpoint_private_access'', VList [VBool False])]])]
       = Inr FAILED
   \<and> EightpointEKSEndpointAccess_scan_resource_conf
     [(''vpc_config'', VList [VDict [(''endpoint_private_access'', VList [VBool True]),
        (''public_access_cidrs'', VList [VStr ''0.0.0.0/0''])]])] = Inr FAILED
   \<and> EightpointEKSEndpointAccess_scan_resource_conf
     [(''vpc_config'', VList [VDict [(''endpoint_private_access'', VList [VBool True]),
        (''endpoint_public_access'', VList [VBool True]),
        (''public_access_cidrs'', VList [VStr ''10.0.0.0/8''])]])] = Inr PASSED
   \<and> EightpointEKSEndpointAccess_scan_resource_conf [] = Inr FAILED"
  using C3_eks_endpoint_access_amended [of
      "[(''vpc_config'', VList [VDict [(''endpoint_private_access'', VList [VBool True]),
        (''endpoint_public_access'', VList [VBool False])]])]"]
    C3_eks_endpoint_access_amended [of
      "[(''vpc_config'', VList [VDict [(''endpoint_private_access'', VList [VBool False])]])]"]
    C3_eks_endpoint_access_amended [of
      "[(''vpc_config'', VList [VDict [(''endpoint_private_access'', VList [VBool True]),
        (''public_access_cidrs'', VList [VStr ''0.0.0.0/0''])]])]"]
    C3_eks_endpoint_access_amended [of
      "[(''vpc_config'', VList [VDict [(''endpoint_private_access'', VList [VBool True]),
        (''endpoint_public_access'', VList [VBool True]),
        (''public_access_cidrs'', VList [VStr ''10.0.0.0/8''])]])]"]
    C3_eks_endpoint_access_amended [of "[]"]
  by (simp add: wrapped_flag_def cidr_list_def all_strings_def)

text \<open>
  The claim as first stated fails on a \<^verbatim>\<open>vpc_config\<close> held as a bare mapping, which
  the data model of the specification allows: the block is present, private access is
  true and public access is false, and the check returns \<open>FAILED\<close>, not \<open>PASSED\<close>, because
  the value is not a sequence. With bare booleans inside a wrapped block the check
  raises \<^verbatim>\<open>TypeError\<close>.
\<close>

theorem C3_eks_endpoint_access_counterexample:
  "spec_get [(''vpc_config'', VDict [(''endpoint_private_access'', VList [VBool True]),
        (''endpoint_public_access'', VList [VBool False])])] ''vpc_config''
     = Some (VDict [(''endpoint_private_access'', VList [VBool True]),
        (''endpoint_public_access'', VList [VBool False])])
   \<and> spec_get [(''endpoint_private_access'', VList [VBool True]),
        (''endpoint_public_access'', VList [VBool False])] ''endpoint_private_access''
     = Some (VBool True)
   \<and> spec_get [(''endpoint_private_access'', VList [VBool True]),
        (''endpoint_public_access'', VList [VBool False])] ''endpoint_public_access''
     = Some (VBool False)
   \<and> EightpointEKSEndpointAccess_scan_resource_conf
        [(''vpc_config'', VDict [(''endpoint_private_access'', VList [VBool True]),
           (''endpoint_public_access'', VList [VBool False])])] = Inr FAILED
   \<and> EightpointEKSEndpointAccess_scan_resource_conf
        [(''vpc_config'', VList [VDict [(''endpoint_private_access'', VBool True),
           (''endpoint_public_access'', VBool False)]])] = Inl TypeError"
  by (simp add: spec_get_def EightpointEKSEndpointAccess_scan_resource_conf_def dict_get_def
      get_first_def)

text \<open>
  Claim C4 (check 005, KMS key rotation), as amended. On a record in wrapped form
  (\<^verbatim>\<open>tags\<close> missing, falsy, or a sequence starting with a mapping whose
  \<^verbatim>\<open>Environment\<close> is missing or a string; \<^verbatim>\<open>description\<close> missing, falsy, or a
  sequence starting with a string) the record is production iff the lower-cased
  \<^verbatim>\<open>Environment\<close> tag equals prod or the lower-cased description contains prod or
  production. A non-production record is \<open>PASSED\<close>; a production record is \<open>PASSED\<close> iff
  \<^verbatim>\<open>enable_key_rotation\<close> is a non-empty sequence whose first element is true, and
  \<open>FAILED\<close> otherwise.
\<close>

theorem C4_kms_key_rotation_amended:
  assumes "wrapped_tags conf = Some d" and "env_tag d = Some env"
    and "wrapped_description conf = Some desc"
  shows "EightpointKMSKeyRotation_scan_resource_conf conf =
     Inr (if str_lower env = ''prod'' \<or> sublist ''prod'' (str_lower desc)
             \<or> sublist ''production'' (str_lower desc)
          then (if \<exists>x xs. map_of conf ''enable_key_rotation'' = Some (VList (x # xs)) \<and> truthy x
                then PASSED else FAILED)
          else PASSED)"
  unfolding kms_on_wrapped [OF assms] rotation_wrapped
  by simp

theorem C4_kms_key_rotation_amended_witness:
  "EightpointKMSKeyRotation_scan_resource_conf
     [(''tags'', VList [VDict [(''Environment'', VStr ''dev'')]])] = Inr PASSED
   \<and> EightpointKMSKeyRotation_scan_resource_conf
     [(''tags'', VList [VDict [(''Environment'', VStr ''prod'')]]),
      (''enable_key_rotation'', VList [VBool True])] = Inr PASSED
   \<and> EightpointKMSKeyRotation_scan_resource_conf
     [(''tags'', VList [VDict [(''Environment'', VStr ''PROD'')]])] = Inr FAILED
   \<and> EightpointKMSKeyRotation_scan_resource_conf
     [(''description'', VList [VStr ''Production key''])] = Inr FAILED"
  using C4_kms_key_rotation_amended [of
      "[(''tags'', VList [VDict [(''Environment'', VStr ''dev'')]])]"
      "[(''Environment'', VStr ''dev'')]" "''dev''" "''''"]
    C4_kms_key_rotation_amended [of
      "[(''tags'', VList [VDict [(''Environment'', VStr ''prod'')]]),
        (''enable_key_rotation'', VList [VBool True])]"
      "[(''Environment'', VStr ''prod'')]" "''prod''" "''''"]
    C4_kms_key_rotation_amended [of
      "[(''tags'', VList [VDict [(''Environment'', VStr ''PROD'')]])]"
      "[(''Environment'', VStr ''PROD'')]" "''PROD''" "''''"]
    C4_kms_key_rotation_amended [of
      "[(''description'', VList [VStr ''Production key''])]" "[]" "''''" "''Production key''"]
  by (simp add: wrapped_tags_def env_tag_def wrapped_description_def str_lower_def
      lower_char_def str_contains_sublist [symmetric])

text \<open>
  The claim as first stated fails on bare values: a record whose \<^verbatim>\<open>description\<close> is
  the bare string \<^verbatim>\<open>production key\<close> is production by the claim and must fail
  without rotation, but the check reads \<^verbatim>\<open>description[0]\<close>, the single character
  \<^verbatim>\<open>p\<close>, and returns \<open>PASSED\<close>; and a production record whose
  \<^verbatim>\<open>enable_key_rotation\<close> is the bare boolean true is \<open>FAILED\<close>.
\<close>

theorem C4_kms_key_rotation_counterexample:
  "spec_get [(''description'', VStr ''production key'')] ''description''
     = Some (VStr ''production key'')
   \<and> sublist ''prod'' (str_lower ''production key'')
   \<and> EightpointKMSKeyRotation_scan_resource_conf
        [(''description'', VStr ''production key'')] = Inr PASSED
   \<and> spec_get [(''tags'', VList [VDict [(''Environment'', VStr ''prod'')]]),
        (''enable_key_rotation'', VBool True)] ''enable_key_rotation'' = Some (VBool True)
   \<and> EightpointKMSKeyRotation_scan_resource_conf
        [(''tags'', VList [VDict [(''Environment'', VStr ''prod'')]]),
         (''enable_key_rotation'', VBool True)] = Inr FAILED"
  by (simp add: spec_get_def EightpointKMSKeyRotation_scan_resource_conf_def dict_get_def
      first_tags_def tag_lower_def str_lower_def lower_char_def
      str_contains_sublist [symmetric])

text \<open>
  Claim C5 (check 006, RDS backup retention), as amended. On a record whose \<^verbatim>\<open>tags\<close>
  is in wrapped form (missing, falsy, or a sequence starting with a mapping whose
  \<^verbatim>\<open>Environment\<close> is missing or a string) the check returns \<open>FAILED\<close> when
  \<^verbatim>\<open>backup_retention_period\<close> is missing, falsy, or not a sequence; and when it is a
  sequence whose first element is the integer \<open>n\<close>: if the lower-cased environment is
  prod or production, \<open>PASSED\<close> iff \<open>n \<ge> 7\<close>, otherwise \<open>PASSED\<close> iff \<open>n \<ge> 1\<close>.
\<close>

theorem C5_rds_backup_retention_amended:
  assumes "wrapped_tags conf = Some d" and "env_tag d = Some env"
  shows "(map_of conf ''backup_retention_period'' = None \<longrightarrow>
            EightpointRDSBackupRetention_scan_resource_conf conf = Inr FAILED)
   \<and> (\<forall>v. map_of conf ''backup_retention_period'' = Some v
            \<and> (\<not> truthy v \<or> \<not> isinstance_list v) \<longrightarrow>
            EightpointRDSBackupRetention_scan_resource_conf conf = Inr FAILED)
   \<and> (\<forall>n r. map_of conf ''backup_retention_period'' = Some (VList (VInt n # r)) \<longrightarrow>
            EightpointRDSBackupRetention_scan_resource_conf conf =
              Inr (if str_lower env = ''prod'' \<or> str_lower env = ''production''
                   then (if 7 \<le> n then PASSED else FAILED)
                   else (if 1 \<le> n then PASSED else FAILED)))"
  unfolding rds_on_wrapped [OF assms]
  by (auto simp: dict_get_def)

theorem C5_rds_backup_retention_amended_witness:
  "EightpointRDSBackupRetention_scan_resource_conf
     [(''tags'', VList [VDict [(''Environment'', VStr ''Prod'')]]),
      (''backup_retention_period'', VList [VInt 7])] = Inr PASSED
   \<and> EightpointRDSBackupRetention_scan_resource_conf
     [(''tags'', VList [VDict [(''Environment'', VStr ''production'')]]),
      (''backup_retention_period'', VList [VInt 6])] = Inr FAILED
   \<and> EightpointRDSBackupRetention_scan_resource_conf
     [(''tags'', VList [VDict [(''Environment'', VStr ''dev'')]]),
      (''backup_retention_period'', VList [VInt 1])] = Inr PASSED
   \<and> EightpointRDSBackupRetention_scan_resource_conf
     [(''backup_retention_period'', VList [VInt 0])] = Inr FAILED
   \<and> EightpointRDSBackupRetention_scan_resource_conf
     [(''tags'', VList [VDict [(''Environment'', VStr ''prod'')]])] = Inr FAILED"
  using C5_rds_backup_retention_amended [of
      "[(''tags'', VList [VDict [(''Environment'', VStr ''Prod'')]]),
        (''backup_retention_period'', VList [VInt 7])]"
      "[(''Environment'', VStr ''Prod'')]" "''Prod''"]
    C5_rds_backup_retention_amended [of
      "[(''tags'', VList [VDict [(''Environment'', VStr ''production'')]]),
        (''backup_retention_period'', VList [VInt 6])]"
      "[(''Environment'', VStr ''production'')]" "''production''"]
    C5_rds_backup_retention_amended [of
      "[(''tags'', VList [VDict [(''Environment'', VStr ''dev'')]]),
        (''backup_retention_period'', VList [VInt 1])]"
      "[(''Environment'', VStr ''dev'')]" "''dev''"]
    C5_rds_backup_retention_amended [of
      "[(''backup_retention_period'', VList [VInt 0])]" "[]" "''''"]
    C5_rds_backup_retention_amended [of
      "[(''tags'', VList [VDict [(''Environment'', VStr ''prod'')]])]"
      "[(''Environment'', VStr ''prod'')]" "''prod''"]
  by (simp add: wrapped_tags_def env_tag_def str_lower_def lower_char_def)

text \<open>
  The claim as first stated fails on a bare integer: \<^verbatim>\<open>backup_retention_period\<close> held
  as the bare integer 7 unwraps to 7, which is at least 1, yet the check returns
  \<open>FAILED\<close> because the value is not a sequence; the same value wrapped is \<open>PASSED\<close>.
\<close>

theorem C5_rds_backup_retention_counterexample:
  "spec_get [(''backup_retention_period'', VInt 7)] ''backup_retention_period'' = Some (VInt 7)
   \<and> EightpointRDSBackupRetention_scan_resource_conf
        [(''backup_retention_period'', VInt 7)] = Inr FAILED
   \<and> EightpointRDSBackupRetention_scan_resource_conf
        [(''backup_retention_period'', VList [VInt 7])] = Inr PASSED"
  by (simp add: spec_get_def EightpointRDSBackupRetention_scan_resource_conf_def dict_get_def
      first_tags_def tag_lower_def str_lower_def)

section \<open>Well-formed records and the unwrapping step\<close>

lemma name_shape_cases:
  assumes "name_shape conf key"
  obtains "\<not> truthy (dict_get conf key VNone)"
  | name where "dict_get conf key VNone = VStr name"
  | name r where "dict_get conf key VNone = VList (VStr name # r)"
  using assms
  by (auto simp: name_shape_def dict_get_def split: option.splits pyval.splits list.splits)

lemma s3_total: "name_shape conf ''bucket'' \<Longrightarrow>
    returns_verdict (EightpointS3BucketNaming_scan_resource_conf conf)"
proof (erule name_shape_cases)
  assume "\<not> truthy (dict_get conf ''bucket'' VNone)"
  then show ?thesis
    by (simp add: EightpointS3BucketNaming_scan_resource_conf_def Let_def returns_verdict_def)
next
  fix name assume "dict_get conf ''bucket'' VNone = VStr name"
  then show ?thesis using s3_on_string [of conf name] by (simp add: returns_verdict_def)
next
  fix name r assume "dict_get conf ''bucket'' VNone = VList (VStr name # r)"
  then show ?thesis using s3_on_string [of conf name r] by (simp add: returns_verdict_def)
qed

lemma sg_total: "name_shape conf ''name'' \<Longrightarrow>
    returns_verdict (EightpointSecurityGroupNaming_scan_resource_conf conf)"
proof (erule name_shape_cases)
  assume "\<not> truthy (dict_get conf ''name'' VNone)"
  then show ?thesis
    by (simp add: EightpointSecurityGroupNaming_scan_resource_conf_def Let_def returns_verdict_def)
next
  fix name assume "dict_get conf ''name'' VNone = VStr name"
  then show ?thesis using sg_on_string [of conf name] by (simp add: returns_verdict_def)
next
  fix name r assume "dict_get conf ''name'' VNone = VList (VStr name # r)"
  then show ?thesis using sg_on_string [of conf name r] by (simp add: returns_verdict_def)
qed

lemma iam_total: "name_shape conf ''name'' \<Longrightarrow>
    returns_verdict (EightpointIAMRoleNaming_scan_resource_conf conf)"
proof (erule name_shape_cases)
  assume "\<not> truthy (dict_get conf ''name'' VNone)"
  then show ?thesis
    by (simp add: EightpointIAMRoleNaming_scan_resource_conf_def Let_def returns_verdict_def)
next
  fix name assume "dict_get conf ''name'' VNone = VStr name"
  then show ?thesis using iam_on_string [of conf name] by (simp add: returns_verdict_def)
next
  fix name r assume "dict_get conf ''name'' VNone = VList (VStr name # r)"
  then show ?thesis using iam_on_string [of conf name r] by (simp add: returns_verdict_def)
qed

lemma method_lower_tag_is_str:
  "tag_is_str d key \<Longrightarrow>
     \<exists>s. method_lower (case map_of d key of None \<Rightarrow> VStr '''' | Some v \<Rightarrow> v) = Inr s"
  by (auto simp: tag_is_str_def split: option.splits pyval.splits)

lemma tagging_total:
  assumes "wrapped_tags conf = Some d"
    and "tag_is_str d ''Team''" and "tag_is_str d ''Environment''" and "tag_is_str d ''ManagedBy''"
  shows "returns_verdict (EightpointResourceTagging_scan_resource_conf conf)"
proof (cases "\<exists>r. map_of conf ''tags'' = Some (VList (VDict d # r))")
  case True
  then obtain r where t: "map_of conf ''tags'' = Some (VList (VDict d # r))" by blast
  from method_lower_tag_is_str [OF assms(2)] method_lower_tag_is_str [OF assms(3)]
    method_lower_tag_is_str [OF assms(4)]
  obtain s1 s2 s3 where
    "method_lower (case map_of d ''Team'' of None \<Rightarrow> VStr '''' | Some v \<Rightarrow> v) = Inr s1"
    "method_lower (case map_of d ''Environment'' of None \<Rightarrow> VStr '''' | Some v \<Rightarrow> v) = Inr s2"
    "method_lower (case map_of d ''ManagedBy'' of None \<Rightarrow> VStr '''' | Some v \<Rightarrow> v) = Inr s3"
    by blast
  then show ?thesis
    unfolding tagging_on_dict [OF t] returns_verdict_def by simp
next
  case False
  with assms(1) have "\<not> truthy (dict_get conf ''tags'' VNone)"
    by (auto simp: wrapped_tags_def dict_get_def
        split: option.splits if_splits pyval.splits list.splits)
  then show ?thesis
    by (simp add: EightpointResourceTagging_scan_resource_conf_def Let_def returns_verdict_def)
qed

lemma env_tag_of_tag_is_str: "tag_is_str d ''Environment'' \<Longrightarrow> \<exists>env. env_tag d = Some env"
  by (auto simp: tag_is_str_def env_tag_def split: option.splits pyval.splits)

lemma kms_total:
  assumes "wrapped_tags conf = Some d" and "tag_is_str d ''Environment''"
    and "wrapped_description conf \<noteq> None"
  shows "returns_verdict (EightpointKMSKeyRotation_scan_resource_conf conf)"
proof -
  from assms(2) obtain env where e: "env_tag d = Some env"
    using env_tag_of_tag_is_str by blast
  from assms(3) obtain desc where ds: "wrapped_description conf = Some desc" by blast
  show ?thesis
    unfolding kms_on_wrapped [OF assms(1) e ds] rotation_wrapped returns_verdict_def
    by simp
qed

lemma rds_total:
  assumes "wrapped_tags conf = Some d" and "tag_is_str d ''Environment''"
    and "retention_shape conf"
  shows "returns_verdict (EightpointRDSBackupRetention_scan_resource_conf conf)"
proof -
  from assms(2) obtain env where e: "env_tag d = Some env"
    using env_tag_of_tag_is_str by blast
  from assms(3) show ?thesis
    unfolding rds_on_wrapped [OF assms(1) e] returns_verdict_def Let_def
    by (auto simp: retention_shape_def dict_get_def
        split: option.splits pyval.splits list.splits)
qed

lemma eks_total:
  assumes "vpc_shape conf"
  shows "returns_verdict (EightpointEKSEndpointAccess_scan_resource_conf conf)"
proof (cases "\<exists>vc r. map_of conf ''vpc_config'' = Some (VList (VDict vc # r))")
  case True
  then obtain vc r where v: "map_of conf ''vpc_config'' = Some (VList (VDict vc # r))"
    by blast
  with assms obtain p q cs where
    "wrapped_flag vc ''endpoint_private_access'' (truthy (VBool False)) = Some p"
    "wrapped_flag vc ''endpoint_public_access'' (truthy (VBool True)) = Some q"
    and c: "cidr_list vc = Some cs"
    by (auto simp: vpc_shape_def)
  then obtain x y where
    "get_first (VDict vc) ''endpoint_private_access'' (VList [VBool False]) = Inr x"
    "get_first (VDict vc) ''endpoint_public_access'' (VList [VBool True]) = Inr y"
    using get_first_flag by blast
  then show ?thesis
    unfolding eks_on_wrapped [OF v] cidrs_wrapped [OF c] returns_verdict_def Let_def
    by simp
next
  case False
  with assms have "\<not> truthy (dict_get conf ''vpc_config'' VNone)
      \<or> \<not> isinstance_list (dict_get conf ''vpc_config'' VNone)"
    by (auto simp: vpc_shape_def dict_get_def split: option.splits pyval.splits list.splits)
  then show ?thesis
    by (auto simp: EightpointEKSEndpointAccess_scan_resource_conf_def Let_def returns_verdict_def)
qed

lemma unwrap_singleton:
  "\<not> isinstance_list v \<Longrightarrow>
     (if truthy (VList [v]) \<and> isinstance_list (VList [v]) then getitem0 (VList [v])
      else Inr (VList [v])) =
     (if truthy v \<and> isinstance_list v then getitem0 v else Inr v)"
  by simp

section \<open>Claims about all seven checks\<close>

text \<open>
  Claim C1 (wrapping), as amended. For checks 001, 003 and 004, a record whose examined
  attribute (\<^verbatim>\<open>bucket\<close>, \<^verbatim>\<open>name\<close>) holds a value that is not a sequence and the record
  that holds the same value wrapped as a one-element sequence get the same result. The
  other checks do not normalise: on a \<^verbatim>\<open>tags\<close> value (002) or a \<^verbatim>\<open>vpc_config\<close> value
  (007) that is not a sequence the result is \<open>FAILED\<close>.
\<close>

theorem C1_wrapping_amended:
  assumes "\<not> isinstance_list v"
  shows "(map_of c1 ''bucket'' = Some v \<and> map_of c2 ''bucket'' = Some (VList [v]) \<longrightarrow>
           EightpointS3BucketNaming_scan_resource_conf c1 =
           EightpointS3BucketNaming_scan_resource_conf c2)
    \<and> (map_of c1 ''name'' = Some v \<and> map_of c2 ''name'' = Some (VList [v]) \<longrightarrow>
           EightpointSecurityGroupNaming_scan_resource_conf c1 =
           EightpointSecurityGroupNaming_scan_resource_conf c2
         \<and> EightpointIAMRoleNaming_scan_resource_conf c1 =
           EightpointIAMRoleNaming_scan_resource_conf c2)
    \<and> (map_of c1 ''tags'' = Some v \<longrightarrow>
           EightpointResourceTagging_scan_resource_conf c1 = Inr FAILED)
    \<and> (map_of c1 ''vpc_config'' = Some v \<longrightarrow>
           EightpointEKSEndpointAccess_scan_resource_conf c1 = Inr FAILED)"
proof (intro conjI impI)
  assume "map_of c1 ''bucket'' = Some v \<and> map_of c2 ''bucket'' = Some (VList [v])"
  then have g: "dict_get c1 ''bucket'' VNone = v" "dict_get c2 ''bucket'' VNone = VList [v]"
    by (simp_all add: dict_get_def)
  show "EightpointS3BucketNaming_scan_resource_conf c1 =
        EightpointS3BucketNaming_scan_resource_conf c2"
    unfolding EightpointS3BucketNaming_scan_resource_conf_def Let_def g
      unwrap_singleton [OF assms] ..
next
  assume a: "map_of c1 ''name'' = Some v \<and> map_of c2 ''name'' = Some (VList [v])"
  then have g: "dict_get c1 ''name'' VNone = v" "dict_get c2 ''name'' VNone = VList [v]"
    by (simp_all add: dict_get_def)
  show "EightpointSecurityGroupNaming_scan_resource_conf c1 =
        EightpointSecurityGroupNaming_scan_resource_conf c2"
    unfolding EightpointSecurityGroupNaming_scan_resource_conf_def Let_def g
      unwrap_singleton [OF assms] ..
  show "EightpointIAMRoleNaming_scan_resource_conf c1 =
        EightpointIAMRoleNaming_scan_resource_conf c2"
    unfolding EightpointIAMRoleNaming_scan_resource_conf_def Let_def g
      unwrap_singleton [OF assms] ..
next
  assume "map_of c1 ''tags'' = Some v"
  with assms show "EightpointResourceTagging_scan_resource_conf c1 = Inr FAILED"
    by (simp add: EightpointResourceTagging_scan_resource_conf_def dict_get_def)
next
  assume "map_of c1 ''vpc_config'' = Some v"
  with assms show "EightpointEKSEndpointAccess_scan_resource_conf c1 = Inr FAILED"
    by (simp add: EightpointEKSEndpointAccess_scan_resource_conf_def dict_get_def)
qed

theorem C1_wrapping_amended_witness:
  "\<not> isinstance_list (VStr ''ios-dev-eks-cluster'')
   \<and> EightpointSecurityGroupNaming_scan_resource_conf [(''name'', VStr ''ios-dev-eks-cluster'')]
     = EightpointSecurityGroupNaming_scan_resource_conf
         [(''name'', VList [VStr ''ios-dev-eks-cluster''])]
   \<and> EightpointIAMRoleNaming_scan_resource_conf [(''name'', VStr ''ios-dev-eks-cluster'')]
     = EightpointIAMRoleNaming_scan_resource_conf
         [(''name'', VList [VStr ''ios-dev-eks-cluster''])]
   \<and> EightpointS3BucketNaming_scan_resource_conf [(''bucket'', VInt 5)]
     = EightpointS3BucketNaming_scan_resource_conf [(''bucket'', VList [VInt 5])]
   \<and> EightpointResourceTagging_scan_resource_conf [(''tags'', VDict good_tags)] = Inr FAILED"
proof -
  have a: "\<not> isinstance_list (VStr ''ios-dev-eks-cluster'')" by simp
  have b: "\<not> isinstance_list (VInt 5)" by simp
  have c: "\<not> isinstance_list (VDict good_tags)" by simp
  show ?thesis
    using a
      C1_wrapping_amended [OF a, of "[(''name'', VStr ''ios-dev-eks-cluster'')]"
        "[(''name'', VList [VStr ''ios-dev-eks-cluster''])]"]
      C1_wrapping_amended [OF b, of "[(''bucket'', VInt 5)]" "[(''bucket'', VList [VInt 5])]"]
      C1_wrapping_amended [OF c, of "[(''tags'', VDict good_tags)]" "[]"]
    by simp
qed

text \<open>
  The claim as first stated fails: check 006 gives \<open>FAILED\<close> to the bare integer 30 as
  \<^verbatim>\<open>backup_retention_period\<close> and \<open>PASSED\<close> to the same integer wrapped, and check
  007 gives \<open>FAILED\<close> to a bare \<^verbatim>\<open>vpc_config\<close> mapping and \<open>PASSED\<close> to the same mapping
  wrapped.
\<close>

theorem C1_wrapping_counterexample:
  "EightpointRDSBackupRetention_scan_resource_conf [(''backup_retention_period'', VInt 30)]
     = Inr FAILED
   \<and> EightpointRDSBackupRetention_scan_resource_conf
        [(''backup_retention_period'', VList [VInt 30])] = Inr PASSED
   \<and> EightpointEKSEndpointAccess_scan_resource_conf
        [(''vpc_config'', VDict [(''endpoint_private_access'', VList [VBool True]),
           (''endpoint_public_access'', VList [VBool False])])] = Inr FAILED
   \<and> EightpointEKSEndpointAccess_scan_resource_conf
        [(''vpc_config'', VList [VDict [(''endpoint_private_access'', VList [VBool True]),
           (''endpoint_public_access'', VList [VBool False])]])] = Inr PASSED"
  by (simp add: EightpointRDSBackupRetention_scan_resource_conf_def
      EightpointEKSEndpointAccess_scan_resource_conf_def dict_get_def first_tags_def
      tag_lower_def str_lower_def get_first_def)

text \<open>
  Claim C2 (totality), as amended. On every well-formed record, which includes every
  record with missing attributes, each of the seven checks returns a verdict, \<open>PASSED\<close>
  or \<open>FAILED\<close>, and does not raise.
\<close>

theorem C2_total_on_well_formed:
  assumes "well_formed conf"
  shows "returns_verdict (EightpointS3BucketNaming_scan_resource_conf conf)
    \<and> returns_verdict (EightpointResourceTagging_scan_resource_conf conf)
    \<and> returns_verdict (EightpointSecurityGroupNaming_scan_resource_conf conf)
    \<and> returns_verdict (EightpointIAMRoleNaming_scan_resource_conf conf)
    \<and> returns_verdict (EightpointKMSKeyRotation_scan_resource_conf conf)
    \<and> returns_verdict (EightpointRDSBackupRetention_scan_resource_conf conf)
    \<and> returns_verdict (EightpointEKSEndpointAccess_scan_resource_conf conf)"
proof -
  from assms obtain d where d: "wrapped_tags conf = Some d"
    and t: "tag_is_str d ''Team''" "tag_is_str d ''Environment''" "tag_is_str d ''ManagedBy''"
    by (auto simp: well_formed_def split: option.splits)
  from assms have n: "name_shape conf ''bucket''" "name_shape conf ''name''"
    and ds: "wrapped_description conf \<noteq> None"
    and r: "retention_shape conf" and v: "vpc_shape conf"
    by (simp_all add: well_formed_def)
  show ?thesis
    using s3_total [OF n(1)] tagging_total [OF d t] sg_total [OF n(2)] iam_total [OF n(2)]
      kms_total [OF d t(2) ds] rds_total [OF d t(2) r] eks_total [OF v]
    by simp
qed

theorem C2_total_on_well_formed_witness:
  "well_formed []
   \<and> returns_verdict (EightpointS3BucketNaming_scan_resource_conf [])
   \<and> returns_verdict (EightpointResourceTagging_scan_resource_conf [])
   \<and> returns_verdict (EightpointKMSKeyRotation_scan_resource_conf [])
   \<and> well_formed
        [(''bucket'', VList [VStr ''ios-dev-terraform-state'']), (''name'', VStr ''ios-dev''),
         (''tags'', VList [VDict good_tags]), (''description'', VList [VStr ''key'']),
         (''backup_retention_period'', VList [VInt 7]),
         (''vpc_config'', VList [VDict [(''endpoint_private_access'', VList [VBool True])]])]
   \<and> returns_verdict (EightpointRDSBackupRetention_scan_resource_conf
        [(''bucket'', VList [VStr ''ios-dev-terraform-state'']), (''name'', VStr ''ios-dev''),
         (''tags'', VList [VDict good_tags]), (''description'', VList [VStr ''key'']),
         (''backup_retention_period'', VList [VInt 7]),
         (''vpc_config'', VList [VDict [(''endpoint_private_access'', VList [VBool True])]])])
   \<and> returns_verdict (EightpointEKSEndpointAccess_scan_resource_conf
        [(''bucket'', VList [VStr ''ios-dev-terraform-state'']), (''name'', VStr ''ios-dev''),
         (''tags'', VList [VDict good_tags]), (''description'', VList [VStr ''key'']),
         (''backup_retention_period'', VList [VInt 7]),
         (''vpc_config'', VList [VDict [(''endpoint_private_access'', VList [VBool True])]])])"
proof -
  have w1: "well_formed []"
    by (simp add: well_formed_def name_shape_def wrapped_tags_def tag_is_str_def
        wrapped_description_def retention_shape_def vpc_shape_def)
  have w2: "well_formed
        [(''bucket'', VList [VStr ''ios-dev-terraform-state'']), (''name'', VStr ''ios-dev''),
         (''tags'', VList [VDict good_tags]), (''description'', VList [VStr ''key'']),
         (''backup_retention_period'', VList [VInt 7]),
         (''vpc_config'', VList [VDict [(''endpoint_private_access'', VList [VBool True])]])]"
    by (simp add: well_formed_def name_shape_def wrapped_tags_def tag_is_str_def
        wrapped_description_def retention_shape_def vpc_shape_def wrapped_flag_def cidr_list_def)
  show ?thesis
    using w1 w2 C2_total_on_well_formed [OF w1] C2_total_on_well_formed [OF w2]
    by simp
qed

text \<open>
  The claim as first stated fails on the malformed inputs it names: a non-mapping
  inside the \<^verbatim>\<open>tags\<close> sequence makes check 002 raise \<^verbatim>\<open>TypeError\<close>, a non-string
  name makes check 003 raise \<^verbatim>\<open>AttributeError\<close>, and a non-numeric
  \<^verbatim>\<open>backup_retention_period\<close> makes check 006 raise \<^verbatim>\<open>TypeError\<close>.
\<close>

theorem C2_total_counterexample:
  "EightpointResourceTagging_scan_resource_conf [(''tags'', VList [VInt 5])] = Inl TypeError
   \<and> EightpointSecurityGroupNaming_scan_resource_conf [(''name'', VList [VInt 5])]
       = Inl AttributeError
   \<and> EightpointRDSBackupRetention_scan_resource_conf
        [(''backup_retention_period'', VList [VStr ''seven''])] = Inl TypeError"
  by (simp add: EightpointResourceTagging_scan_resource_conf_def
      EightpointSecurityGroupNaming_scan_resource_conf_def
      EightpointRDSBackupRetention_scan_resource_conf_def dict_get_def required_tags_def
      first_tags_def tag_lower_def str_lower_def)

end
